theory Spec2Isabelle
  imports Main "HOL-Library.Word"
begin

section \<open>JavaScript strings\<close>

text \<open>
  A JavaScript string is a sequence of UTF-16 code units; \<open>length\<close>, \<open>substring\<close>,
  \<open>startsWith\<close> and \<open>trim\<close> all count and compare code units. String literals of the
  source are written \<open>js ''...''\<close>; a quote character inside a literal is given by its
  code unit (34 for the double quote, 39 for the apostrophe, 10 for a line feed).
\<close>

type_synonym jsstring = "16 word list"

definition js :: "string \<Rightarrow> jsstring" where
  "js s = map of_char s"

text \<open>\<open>s.startsWith(p)\<close>.\<close>

definition startsWith :: "jsstring \<Rightarrow> jsstring \<Rightarrow> bool" where
  "startsWith s p \<longleftrightarrow> take (length p) s = p"

text \<open>\<open>s.includes(p)\<close>: \<open>p\<close> occurs in \<open>s\<close> at some position.\<close>

fun includes_js :: "jsstring \<Rightarrow> jsstring \<Rightarrow> bool" where
  "includes_js [] p = (p = [])"
| "includes_js (c # cs) p = (startsWith (c # cs) p \<or> includes_js cs p)"

text \<open>
  The code units \<open>String.prototype.trim\<close> strips: ECMAScript's WhiteSpace (TAB, VT, FF,
  the space separators of Unicode, the byte order mark) and LineTerminator (LF, CR, LS, PS).
\<close>

definition isWhiteSpace :: "16 word \<Rightarrow> bool" where
  "isWhiteSpace c \<longleftrightarrow>
     c \<in> set [0x9, 0xA, 0xB, 0xC, 0xD, 0x20, 0xA0, 0x1680,
                0x2000, 0x2001, 0x2002, 0x2003, 0x2004, 0x2005, 0x2006, 0x2007,
                0x2008, 0x2009, 0x200A, 0x2028, 0x2029, 0x202F, 0x205F, 0x3000, 0xFEFF]"

definition trim :: "jsstring \<Rightarrow> jsstring" where
  "trim s = rev (dropWhile isWhiteSpace (rev (dropWhile isWhiteSpace s)))"

text \<open>\<open>s.split(c)\<close> for a one-character separator: never the empty array.\<close>

fun split :: "16 word \<Rightarrow> jsstring \<Rightarrow> jsstring list" where
  "split c [] = [[]]"
| "split c (x # xs) =
     (if x = c then [] # split c xs
      else (case split c xs of
              [] \<Rightarrow> [[x]]
            | y # ys \<Rightarrow> (x # y) # ys))"

text \<open>\<open>xs[i]\<close> on an array: \<open>undefined\<close> out of range.\<close>

definition at_index :: "'a list \<Rightarrow> nat \<Rightarrow> 'a option" where
  "at_index xs i = (if i < length xs then Some (xs ! i) else None)"

text \<open>The decimal text of a non-negative integer, as a template literal prints it.\<close>

fun show_nat :: "nat \<Rightarrow> jsstring" where
  "show_nat n =
     (if n < 10 then [of_nat (48 + n)]
      else show_nat (n div 10) @ [of_nat (48 + n mod 10)])"

declare show_nat.simps [simp del]

text \<open>
  A thrown value: every value thrown in the code under study is an \<open>Error\<close> instance,
  given here by its \<open>name\<close> and its \<open>message\<close>.
\<close>

datatype exn = Exn (exn_name: jsstring) (exn_message: jsstring)

definition Error :: "jsstring \<Rightarrow> exn" where
  "Error m = Exn (js ''Error'') m"

definition TypeError :: "jsstring \<Rightarrow> exn" where
  "TypeError m = Exn (js ''TypeError'') m"

text \<open>\<open>String(e)\<close> for an \<open>Error\<close> instance (\<open>Error.prototype.toString\<close>).\<close>

definition String_of :: "exn \<Rightarrow> jsstring" where
  "String_of e =
     (if exn_message e = [] then exn_name e
      else if exn_name e = [] then exn_message e
      else exn_name e @ js '': '' @ exn_message e)"

text \<open>\<open>e.message || String(e)\<close>: the empty message is falsy.\<close>

definition message_or_String :: "exn \<Rightarrow> jsstring" where
  "message_or_String e = (if exn_message e \<noteq> [] then exn_message e else String_of e)"


section \<open>The event emitter (utils/eventEmitter.ts)\<close>

text \<open>
  \<open>listeners\<close> is a plain object literal \<open>{}\<close> used as a dictionary from event names to
  arrays of listeners. Its own properties are the map below; a listener is a function
  value, compared by reference (\<open>l !== listener\<close>), so it is modelled by an identifier.

  A property read \<open>this.listeners[eventName]\<close> follows the prototype chain: when the
  object has no own property of that name, the read finds the property that every object
  literal inherits from \<open>Object.prototype\<close>, if there is one of that name. Those inherited
  values are functions (or, for \<open>__proto__\<close>, the prototype object itself): truthy, and
  with no \<open>push\<close>, \<open>filter\<close> or \<open>forEach\<close> method.
\<close>

type_synonym listener = nat

type_synonym EventListeners = "jsstring \<rightharpoonup> listener list"

datatype slot = Undefined | Listeners "listener list" | Inherited

definition object_prototype_keys :: "jsstring list" where
  "object_prototype_keys =
     [js ''constructor'', js ''hasOwnProperty'', js ''isPrototypeOf'',
      js ''propertyIsEnumerable'', js ''toLocaleString'', js ''toString'', js ''valueOf'',
      js ''__proto__'', js ''__defineGetter__'', js ''__defineSetter__'',
      js ''__lookupGetter__'', js ''__lookupSetter__'']"

definition read_slot :: "EventListeners \<Rightarrow> jsstring \<Rightarrow> slot" where
  "read_slot listeners eventName =
     (case listeners eventName of
        Some ls \<Rightarrow> Listeners ls
      | None \<Rightarrow> if eventName \<in> set object_prototype_keys then Inherited else Undefined)"

text \<open>
  \<open>on(eventName, listener)\<close>: creates the array when the read is falsy, pushes, and
  returns the unsubscribe closure, which captures \<open>eventName\<close> and \<open>listener\<close>. Calling
  \<open>push\<close> on an inherited value throws a TypeError (the message is the engine's).
\<close>

definition on :: "EventListeners \<Rightarrow> jsstring \<Rightarrow> listener
                    \<Rightarrow> exn + (EventListeners \<times> (jsstring \<times> listener))" where
  "on listeners eventName l =
     (let listeners1 =
            (if read_slot listeners eventName = Undefined
             then listeners(eventName \<mapsto> []) else listeners)
      in case read_slot listeners1 eventName of
           Listeners ls \<Rightarrow> Inr (listeners1(eventName \<mapsto> ls @ [l]), (eventName, l))
         | _ \<Rightarrow> Inl (TypeError (js ''this.listeners[eventName].push is not a function'')))"

text \<open>\<open>off(eventName, listener)\<close>: keeps the listeners that are not \<open>listener\<close>.\<close>

definition off :: "EventListeners \<Rightarrow> jsstring \<Rightarrow> listener \<Rightarrow> exn + EventListeners" where
  "off listeners eventName l =
     (case read_slot listeners eventName of
        Undefined \<Rightarrow> Inr listeners
      | Listeners ls \<Rightarrow> Inr (listeners(eventName \<mapsto> filter (\<lambda>l'. l' \<noteq> l) ls))
      | Inherited \<Rightarrow> Inl (TypeError (js ''this.listeners[eventName].filter is not a function'')))"

text \<open>The closure \<open>() => this.off(eventName, listener)\<close> returned by \<open>on\<close>.\<close>

definition unsubscribe :: "jsstring \<times> listener \<Rightarrow> EventListeners \<Rightarrow> exn + EventListeners" where
  "unsubscribe u listeners = off listeners (fst u) (snd u)"

text \<open>
  Running a listener: it may change the world outside the emitter (\<open>'w\<close>) and either
  returns or throws. Listeners here do not call back into the emitter (none in the
  repository does). \<open>invoked\<close> records the listeners called, in order; \<open>console_error\<close>
  holds the \<open>console.error\<close> lines.
\<close>

record 'w bus_world =
  world :: 'w
  invoked :: "listener list"
  console_error :: "(jsstring \<times> exn) list"

type_synonym ('a, 'w) behaviour = "listener \<Rightarrow> 'a \<Rightarrow> 'w \<Rightarrow> exn option \<times> 'w"

text \<open>The body of the \<open>forEach\<close> callback: \<open>try { listener(...args) } catch (e) { console.error(...) }\<close>.\<close>

definition call_listener :: "('a, 'w) behaviour \<Rightarrow> jsstring \<Rightarrow> 'a \<Rightarrow> listener
                               \<Rightarrow> 'w bus_world \<Rightarrow> 'w bus_world" where
  "call_listener run eventName args l s =
     (case run l args (world s) of
        (None, w') \<Rightarrow> s\<lparr>world := w', invoked := invoked s @ [l]\<rparr>
      | (Some e, w') \<Rightarrow>
          s\<lparr>world := w', invoked := invoked s @ [l],
            console_error := console_error s
               @ [(js ''Error in event listener for '' @ eventName @ js '':'', e)]\<rparr>)"

fun forEach :: "('a, 'w) behaviour \<Rightarrow> jsstring \<Rightarrow> 'a \<Rightarrow> listener list
                  \<Rightarrow> 'w bus_world \<Rightarrow> 'w bus_world" where
  "forEach run eventName args [] s = s"
| "forEach run eventName args (l # ls) s =
     forEach run eventName args ls (call_listener run eventName args l s)"

definition emit :: "('a, 'w) behaviour \<Rightarrow> EventListeners \<Rightarrow> jsstring \<Rightarrow> 'a
                      \<Rightarrow> 'w bus_world \<Rightarrow> exn + 'w bus_world" where
  "emit run listeners eventName args s =
     (case read_slot listeners eventName of
        Undefined \<Rightarrow> Inr s
      | Listeners ls \<Rightarrow> Inr (forEach run eventName args ls s)
      | Inherited \<Rightarrow> Inl (TypeError (js ''this.listeners[eventName].forEach is not a function'')))"

text \<open>The listeners registered under an event name, in registration order.\<close>

definition registered :: "EventListeners \<Rightarrow> jsstring \<Rightarrow> listener list" where
  "registered listeners eventName =
     (case listeners eventName of None \<Rightarrow> [] | Some ls \<Rightarrow> ls)"


section \<open>Shared data contracts (types.ts)\<close>

datatype DebugLogLevel =
    INFO | WARNING | ERROR | API_CALL | API_RESPONSE
  | API_KEY_MISSING | MODEL_SELECTION | CONTEXT_MEMORY | AUTOMATION_STEP | UI_EVENT

text \<open>
  \<open>options\<close> is a \<open>Record<string, any>\<close> that may be absent; the code only ever tests a
  value for truthiness (\<open>step.options?.emojiMode || false\<close>), so a value is given by its
  truthiness.
\<close>

type_synonym step_options = "(jsstring \<times> bool) list option"

record AutomationStep =
  actionId :: jsstring
  inputKey :: "jsstring option"
  outputKey :: "jsstring option"
  options :: step_options

text \<open>\<open>AIAction\<close>: the fields the executor reads (\<open>icon\<close> and \<open>component\<close> are rendering only).\<close>

record AIAction =
  action_id :: jsstring
  action_name :: jsstring
  action_description :: jsstring

text \<open>
  The \<open>details\<close> payload of a log entry, as the list of its fields. A log entry's \<open>id\<close>
  and \<open>timestamp\<close> are read off the clock and are left out.
\<close>

datatype detail =
    DString jsstring
  | DUndefined
  | DSteps "AutomationStep list"
  | DOptions step_options
  | DConfig "(string \<times> jsstring) list"

record DebugLogEntry =
  level :: DebugLogLevel
  message :: jsstring
  details :: "(string \<times> detail) list"

definition optString :: "jsstring option \<Rightarrow> detail" where
  "optString v = (case v of None \<Rightarrow> DUndefined | Some s \<Rightarrow> DString s)"


section \<open>The model service (services/geminiService.ts)\<close>

text \<open>
  The hosted model is outside the program. A request to \<open>ai.models.generateContent\<close> is
  either the text request that \<open>generateTextContent\<close> builds or the two-part request
  (image part, text prompt) that \<open>generateImages\<close> builds. The reply either throws or is
  a response whose \<open>text\<close> may be \<open>undefined\<close>; \<open>elapsed\<close> is the text of
  \<open>(performance.now() - startTime).toFixed(2)\<close> at the moment the call settles.
  The service is a parameter: a function of the calls made so far and of the request.
  \<open>TextRequest model contents systemInstruction\<close> has the system instruction of its
  \<open>config\<close> (absent when the config is empty); \<open>ImageRequest model mimeType data prompt\<close>
  has the two fields of the inline image and the text part. A value thrown by the service
  is an \<open>Error\<close> instance.
\<close>

datatype api_request =
    TextRequest jsstring jsstring "jsstring option"
  | ImageRequest jsstring "jsstring option" "jsstring option" jsstring

record api_reply =
  outcome :: "exn + jsstring option"
  elapsed :: jsstring

type_synonym api_call = "api_request \<times> api_reply"

type_synonym service = "api_call list \<Rightarrow> api_request \<Rightarrow> api_reply"

record environment =
  env_API_KEY :: "jsstring option"
  localStorage_apiKey_gemini :: "jsstring option"

text \<open>Truthiness of a value that is a string or \<open>undefined\<close>/\<open>null\<close>.\<close>

definition truthy :: "jsstring option \<Rightarrow> bool" where
  "truthy v = (case v of None \<Rightarrow> False | Some s \<Rightarrow> s \<noteq> [])"

text \<open>
  The component's React state, the log sink and the outside effects of one run.
  \<open>logs\<close> are the entries handed to \<open>log\<close>, in order (the sink, \<open>onLogDebug\<close> or the
  emitter on \<open>debugLog\<close>, returns normally); \<open>calls\<close> are the requests sent to the model
  with their replies, in order; \<open>completions\<close> are the \<open>onActionComplete\<close> notifications.
\<close>

record run_state =
  isLoading :: bool
  error :: "jsstring option"
  automationOutput :: jsstring
  isApiKeyMissing :: bool
  completions :: "jsstring list"
  logs :: "DebugLogEntry list"
  console :: "(jsstring \<times> exn) list"
  calls :: "api_call list"

definition log :: "DebugLogEntry \<Rightarrow> run_state \<Rightarrow> run_state" where
  "log entry st = st\<lparr>logs := logs st @ [entry]\<rparr>"

text \<open>
  \<open>getGeminiClient\<close>: \<open>dynamicApiKey || localStorage.getItem('apiKey_gemini') ||
  process.env.API_KEY\<close>; throws when none is truthy. The result is the key the client is
  built with.
\<close>

definition getGeminiClient :: "environment \<Rightarrow> jsstring option \<Rightarrow> exn + jsstring" where
  "getGeminiClient env dynamicApiKey =
     (let apiKeyToUse =
            (if truthy dynamicApiKey then dynamicApiKey
             else if truthy (localStorage_apiKey_gemini env) then localStorage_apiKey_gemini env
             else env_API_KEY env)
      in case apiKeyToUse of
           Some key \<Rightarrow>
             if key \<noteq> [] then Inr key
             else Inl (Error (js ''Gemini API Key is not configured. Please ensure your API key is set in the environment or in the API Configurator.''))
         | None \<Rightarrow>
             Inl (Error (js ''Gemini API Key is not configured. Please ensure your API key is set in the environment or in the API Configurator.'')))"

text \<open>
  \<open>generateTextContent({model, prompt, systemInstruction, onLogDebug})\<close>, as the executor
  calls it (no \<open>contents\<close>, search tool or response schema). The client is obtained
  before the \<open>try\<close>. The result is the \<open>text\<close> of the response; \<open>groundingChunks\<close> is
  not read by the executor and is left out, also of the logged details.
\<close>

definition generateTextContent ::
  "service \<Rightarrow> environment \<Rightarrow> jsstring \<Rightarrow> jsstring \<Rightarrow> jsstring
     \<Rightarrow> run_state \<Rightarrow> (exn + jsstring option) \<times> run_state" where
  "generateTextContent ai env model prompt systemInstruction st =
     (case getGeminiClient env None of
        Inl e \<Rightarrow> (Inl e, st)
      | Inr key \<Rightarrow>
          let config = (if systemInstruction \<noteq> []
                        then [(''systemInstruction'', systemInstruction)] else []);
              request = TextRequest model prompt
                          (if config \<noteq> [] then Some systemInstruction else None);
              st1 = log \<lparr>level = API_CALL,
                          message = js ''Calling generateContent for model: '' @ model,
                          details = [(''prompt'', if prompt \<noteq> [] then DString prompt else DUndefined),
                                     (''systemInstruction'', DString systemInstruction),
                                     (''config'', DConfig config)]\<rparr> st;
              reply = ai (calls st1) request;
              st2 = st1\<lparr>calls := calls st1 @ [(request, reply)]\<rparr>
          in case outcome reply of
               Inr text \<Rightarrow>
                 (Inr text,
                  log \<lparr>level = API_RESPONSE,
                        message = js ''generateContent succeeded (latency: '' @ elapsed reply @ js ''ms)'',
                        details = [(''response'', optString text)]\<rparr> st2)
             | Inl e \<Rightarrow>
                 let st3 = log \<lparr>level = ERROR,
                                 message = js ''generateContent failed (latency: '' @ elapsed reply @ js ''ms)'',
                                 details = [(''error'', DString (message_or_String e))]\<rparr> st2;
                     st4 = st3\<lparr>console := console st3 @ [(js ''Error generating text content:'', e)]\<rparr>
                 in (Inl (Error (js ''Failed to generate content: '' @ exn_message e)), st4))"

text \<open>
  What \<open>generateImages\<close> returns: an array of data URLs, or the whole response (given by
  its \<open>text\<close>).
\<close>

datatype image_result = ImageUrls "jsstring list" | Response "jsstring option"

text \<open>
  \<open>generateImages({model: 'gemini-2.5-flash-image', prompt, imagePart})\<close>, as the
  executor calls it: with this model and an image part the function sends both parts and
  returns the response itself.
\<close>

definition generateImages ::
  "service \<Rightarrow> environment \<Rightarrow> jsstring \<Rightarrow> jsstring option \<times> jsstring option
     \<Rightarrow> run_state \<Rightarrow> (exn + image_result) \<times> run_state" where
  "generateImages ai env prompt imagePart st =
     (case getGeminiClient env None of
        Inl e \<Rightarrow> (Inl e, st)
      | Inr key \<Rightarrow>
          let request = ImageRequest (js ''gemini-2.5-flash-image'')
                          (fst imagePart) (snd imagePart) prompt;
              reply = ai (calls st) request;
              st1 = st\<lparr>calls := calls st @ [(request, reply)]\<rparr>
          in case outcome reply of
               Inr text \<Rightarrow> (Inr (Response text), st1)
             | Inl e \<Rightarrow>
                 (Inl (Error (js ''Failed to generate image: '' @ exn_message e)),
                  st1\<lparr>console := console st1 @ [(js ''Error generating image content:'', e)]\<rparr>))"


section \<open>The automation executor (components/AutomationActions.tsx)\<close>

text \<open>The preview of a step's output in the completion log entry.\<close>

definition preview :: "jsstring \<Rightarrow> jsstring" where
  "preview stepOutput =
     take 100 stepOutput @ (if length stepOutput > 100 then js ''...'' else [])"

text \<open>
  The end of a successful loop iteration: the completion entry, then
  \<open>currentInput = stepOutput\<close> and the flag, which every branch has just cleared, is set
  when the new input starts with the image marker.
\<close>

definition complete_step :: "nat \<Rightarrow> jsstring \<Rightarrow> run_state
                               \<Rightarrow> (exn + jsstring \<times> bool) \<times> run_state" where
  "complete_step i stepOutput st =
     (let isInputImage = False;
          st1 = log \<lparr>level = INFO,
                      message = js ''Step '' @ show_nat (i + 1) @ js '' completed.'',
                      details = [(''output'', DString (preview stepOutput))]\<rparr> st;
          currentInput = stepOutput;
          isInputImage = (if startsWith currentInput (js ''data:image/'') then True
                          else isInputImage)
      in (Inr (currentInput, isInputImage), st1))"

text \<open>\<open>text.trim()\<close> on the text of a response: a TypeError when the text is \<open>undefined\<close>.\<close>

definition trim_text :: "jsstring option \<Rightarrow> exn + jsstring" where
  "trim_text text =
     (case text of
        None \<Rightarrow> Inl (TypeError (js ''Cannot read properties of undefined (reading '' @ [39] @ js ''trim'' @ [39] @ js '')''))
      | Some t \<Rightarrow> Inr (trim t))"

text \<open>The two prompts of the social commenter branch (template literals over two lines).\<close>

definition social_prompt :: "bool \<Rightarrow> jsstring \<Rightarrow> jsstring" where
  "social_prompt emojiMode currentInput =
     (if emojiMode
      then js ''Given the following social media post, generate a short, polite, context-relevant, and concise comment using ONLY emojis (1-3 emojis max).''
           @ [10] @ js ''            Post: '' @ [34] @ currentInput @ [34]
      else js ''Given the following social media post, generate a short, polite, coherent, and concise comment (max 20 words).''
           @ [10] @ js ''            Post: '' @ [34] @ currentInput @ [34])"

text \<open>\<open>step.options?.emojiMode || false\<close>.\<close>

definition emojiMode_of :: "step_options \<Rightarrow> bool" where
  "emojiMode_of opts =
     (case opts of
        None \<Rightarrow> False
      | Some kvs \<Rightarrow> (case map_of kvs (js ''emojiMode'') of None \<Rightarrow> False | Some b \<Rightarrow> b))"

text \<open>
  One iteration of the \<open>for\<close> loop of \<open>runAutomation\<close>, for step \<open>i\<close> (counted from 0).
  \<open>Inl\<close> is the value thrown out of the loop; \<open>Inr\<close> carries the new \<open>currentInput\<close>
  and \<open>isInputImage\<close>. \<open>allAvailableActions\<close> and the model name are parameters;
  their values in \<open>constants.ts\<close> are \<open>WORKSPACES_availableActions\<close> and
  \<open>DEFAULT_AI_MODEL\<close> below.
\<close>

definition run_step ::
  "service \<Rightarrow> environment \<Rightarrow> AIAction list \<Rightarrow> jsstring \<Rightarrow> nat \<Rightarrow> AutomationStep
     \<Rightarrow> jsstring \<Rightarrow> bool \<Rightarrow> run_state \<Rightarrow> (exn + jsstring \<times> bool) \<times> run_state" where
  "run_step ai env allAvailableActions model i step currentInput isInputImage st =
     (case find (\<lambda>a. action_id a = actionId step) allAvailableActions of
        None \<Rightarrow>
          (Inl (Error (js ''Invalid action ID: '' @ actionId step @ js '' at step '' @ show_nat (i + 1))), st)
      | Some action \<Rightarrow>
          let st1 = log \<lparr>level = INFO,
                          message = js ''Executing step '' @ show_nat (i + 1) @ js '': '' @ action_name action,
                          details = [(''actionId'', DString (action_id action)),
                                     (''input'', DString currentInput),
                                     (''options'', DOptions (options step))]\<rparr> st
          in
          if action_id action = js ''vision-integration'' then
            if \<not> startsWith currentInput (js ''data:image/'') then
              (Inl (Error (js ''Vision Integration requires an image input (base64 data URL). Current input is not an image.'')), st1)
            else
              let mimeType = (case split 0x3B currentInput of
                                [] \<Rightarrow> None
                              | part # _ \<Rightarrow> at_index (split 0x3A part) 1);
                  base64Data = at_index (split 0x2C currentInput) 1
              in case generateImages ai env (js ''Describe this image in detail.'')
                        (mimeType, base64Data) st1 of
                   (Inl e, st2) \<Rightarrow> (Inl e, st2)
                 | (Inr (ImageUrls urls), st2) \<Rightarrow>
                     (Inl (Error (js ''Vision integration did not return expected text output.'')), st2)
                 | (Inr (Response text), st2) \<Rightarrow>
                     (case trim_text text of
                        Inl e \<Rightarrow> (Inl e, st2)
                      | Inr stepOutput \<Rightarrow> complete_step i stepOutput st2)
          else if action_id action = js ''social-commenter'' then
            let emojiMode = emojiMode_of (options step);
                prompt = social_prompt emojiMode currentInput
            in case generateTextContent ai env model prompt
                      (action_description action) st1 of
                 (Inl e, st2) \<Rightarrow> (Inl e, st2)
               | (Inr text, st2) \<Rightarrow>
                   (case trim_text text of
                      Inl e \<Rightarrow> (Inl e, st2)
                    | Inr stepOutput \<Rightarrow> complete_step i stepOutput st2)
          else
            if isInputImage then
              (Inl (Error (js ''Text-based action '' @ [39] @ action_name action @ [39]
                            @ js '' cannot process image input from previous step.'')), st1)
            else
              case generateTextContent ai env model currentInput
                      (action_description action) st1 of
                 (Inl e, st2) \<Rightarrow> (Inl e, st2)
               | (Inr text, st2) \<Rightarrow>
                   (case trim_text text of
                      Inl e \<Rightarrow> (Inl e, st2)
                    | Inr stepOutput \<Rightarrow> complete_step i stepOutput st2))"

text \<open>The loop \<open>for (let i = 0; i < steps.length; i++)\<close>, from index \<open>i\<close> on.\<close>

fun run_steps ::
  "service \<Rightarrow> environment \<Rightarrow> AIAction list \<Rightarrow> jsstring \<Rightarrow> nat \<Rightarrow> AutomationStep list
     \<Rightarrow> jsstring \<Rightarrow> bool \<Rightarrow> run_state \<Rightarrow> (exn + jsstring \<times> bool) \<times> run_state" where
  "run_steps ai env acts model i [] currentInput isInputImage st =
     (Inr (currentInput, isInputImage), st)"
| "run_steps ai env acts model i (step # rest) currentInput isInputImage st =
     (case run_step ai env acts model i step currentInput isInputImage st of
        (Inl e, st') \<Rightarrow> (Inl e, st')
      | (Inr (currentInput', isInputImage'), st') \<Rightarrow>
          run_steps ai env acts model (i + 1) rest currentInput' isInputImage' st')"

text \<open>\<open>automationName || 'Untitled Automation'\<close>.\<close>

definition name_or_untitled :: "jsstring \<Rightarrow> jsstring" where
  "name_or_untitled automationName =
     (if automationName \<noteq> [] then automationName else js ''Untitled Automation'')"

definition api_key_message :: jsstring where
  "api_key_message =
     js ''API Key is not configured. Please ensure your API key is set in the environment.''"

text \<open>The \<open>catch\<close> block of \<open>runAutomation\<close>.\<close>

definition catch_block :: "jsstring \<Rightarrow> exn \<Rightarrow> run_state \<Rightarrow> run_state" where
  "catch_block automationName err st =
     (let st1 = st\<lparr>console := console st @ [(js ''Error running automation:'', err)]\<rparr>;
          st2 = (if includes_js (exn_message err) (js ''API Key is not configured'')
                 then st1\<lparr>isApiKeyMissing := True, error := Some api_key_message\<rparr>
                 else st1\<lparr>error := Some (js ''Failed to run automation: '' @ exn_message err)\<rparr>)
      in log \<lparr>level = ERROR,
               message = js ''Automation '' @ [34] @ name_or_untitled automationName @ [34] @ js '' failed.'',
               details = [(''error'', DString (message_or_String err))]\<rparr> st2)"

text \<open>
  \<open>runAutomation\<close>: the promise it returns always resolves; a failure of the run is the
  \<open>error\<close> state it sets and the \<open>error\<close>-level entry it logs. The \<open>finally\<close> block
  clears \<open>isLoading\<close> on every path.
\<close>

definition runAutomation ::
  "service \<Rightarrow> environment \<Rightarrow> AIAction list \<Rightarrow> jsstring \<Rightarrow> jsstring \<Rightarrow> AutomationStep list
     \<Rightarrow> jsstring \<Rightarrow> run_state \<Rightarrow> run_state" where
  "runAutomation ai env allAvailableActions model automationName steps
                 initialAutomationInput st =
     (let st1 = st\<lparr>isLoading := True, error := None, automationOutput := []\<rparr>;
          st2 = log \<lparr>level = INFO,
                      message = js ''Starting automation: '' @ name_or_untitled automationName,
                      details = [(''initialInput'', DString initialAutomationInput),
                                 (''steps'', DSteps steps)]\<rparr> st1;
          st3 =
            (if \<not> truthy (env_API_KEY env) then
               log \<lparr>level = ERROR,
                     message = js ''Automation failed: API Key missing.'',
                     details = []\<rparr>
                   (st2\<lparr>isApiKeyMissing := True, error := Some api_key_message\<rparr>)
             else
               let currentInput = initialAutomationInput;
                   isInputImage = False
               in case run_steps ai env allAvailableActions model 0 steps
                         currentInput isInputImage (st2\<lparr>isApiKeyMissing := False\<rparr>) of
                    (Inr (currentInput', isInputImage'), st') \<Rightarrow>
                      log \<lparr>level = INFO,
                            message = js ''Automation '' @ [34] @ name_or_untitled automationName @ [34]
                                      @ js '' finished successfully.'',
                            details = [(''finalOutput'', DString currentInput')]\<rparr>
                          (st'\<lparr>automationOutput := currentInput',
                               completions := completions st'
                                 @ [js ''Automation '' @ [34] @ automationName @ [34] @ js '' completed.'']\<rparr>)
                  | (Inl err, st') \<Rightarrow> catch_block automationName err st')
      in st3\<lparr>isLoading := False\<rparr>)"

text \<open>\<open>handleRunAutomation\<close>: the two validations, then the run.\<close>

definition handleRunAutomation ::
  "service \<Rightarrow> environment \<Rightarrow> AIAction list \<Rightarrow> jsstring \<Rightarrow> jsstring \<Rightarrow> AutomationStep list
     \<Rightarrow> jsstring \<Rightarrow> run_state \<Rightarrow> run_state" where
  "handleRunAutomation ai env allAvailableActions model automationName steps
                       initialAutomationInput st =
     (if length steps = 0 then
        st\<lparr>error := Some (js ''Please add at least one step to the automation.'')\<rparr>
      else if trim initialAutomationInput = [] then
        st\<lparr>error := Some (js ''Please provide initial input for the automation.'')\<rparr>
      else runAutomation ai env allAvailableActions model automationName steps
             initialAutomationInput st)"


section \<open>Constants (constants.ts)\<close>

definition DEFAULT_AI_MODEL :: jsstring where
  "DEFAULT_AI_MODEL = js ''gemini-2.5-flash''"

text \<open>
  \<open>WORKSPACES.flatMap(ws => ws.availableActions)\<close>: the actions of all workspaces, in
  order, each with its \<open>id\<close>, \<open>name\<close> and \<open>description\<close>.
\<close>

definition WORKSPACES_availableActions :: "AIAction list" where
  "WORKSPACES_availableActions =
     [
      \<lparr>action_id = js ''summarize'',
        action_name = js ''Summariser'',
        action_description = js ''Summarise any text or webpage (3-5 key ideas).''\<rparr>,
      \<lparr>action_id = js ''text-analyzer'',
        action_name = js ''Text Analyzer & Discussor'',
        action_description = js ''Explain complex parts, analyze arguments, generate insights. Supports dialogue.''\<rparr>,
      \<lparr>action_id = js ''keyword-extractor'',
        action_name = js ''Keyword & SEO Extractor'',
        action_description = js ''Extract key phrases, SEO keywords, meta descriptions & suggest hashtags.''\<rparr>,
      \<lparr>action_id = js ''data-extractor'',
        action_name = js ''Data Extractor'',
        action_description = js ''Extract structured data from a webpage (tables, prices, reviews) in JSON/CSV.''\<rparr>,
      \<lparr>action_id = js ''summarize-files'',
        action_name = js ''Summarize PDF / Docs (via upload)'',
        action_description = js ''Upload and summarize content from TXT, PDF, DOCX files.''\<rparr>,
      \<lparr>action_id = js ''search-enhancer'',
        action_name = js ''AI-Driven Search Enhancement'',
        action_description = js ''Summarize Google results inline and enhance search experience.''\<rparr>,
      \<lparr>action_id = js ''autonomous-research'',
        action_name = js ''Autonomous Research Mode'',
        action_description = js ''AI browses, reads, summarizes, and cites automatically.''\<rparr>,
      \<lparr>action_id = js ''fix-grammar'',
        action_name = js ''Grammar Fixer'',
        action_description = js ''Fix grammar in Australian/US English, keep tone.''\<rparr>,
      \<lparr>action_id = js ''rewriter'',
        action_name = js ''Rewriter / Paraphraser'',
        action_description = js ''Rewrite text clearly, avoid plagiarism, preserve meaning.''\<rparr>,
      \<lparr>action_id = js ''translator'',
        action_name = js ''Translator'',
        action_description = js ''Translate text between major languages (auto-detect input).''\<rparr>,
      \<lparr>action_id = js ''email-writer'',
        action_name = js ''Email & Message Writer'',
        action_description = js ''Generate concise professional replies for Gmail, LinkedIn, etc.''\<rparr>,
      \<lparr>action_id = js ''code-reviewer'',
        action_name = js ''Code Snippet Reviewer'',
        action_description = js ''Highlight any code '' @ [8594] @ js '' get review, bug detection, or docstring.''\<rparr>,
      \<lparr>action_id = js ''test-script-generator'',
        action_name = js ''AI Test Script Generator'',
        action_description = js ''Generates Selenium/Playwright tests from page context or user flow descriptions.''\<rparr>,
      \<lparr>action_id = js ''ai-debugger-webpages'',
        action_name = js ''AI Debugger for Webpages'',
        action_description = js ''Explain errors in console or page scripts in real time.''\<rparr>,
      \<lparr>action_id = js ''social-commenter'',
        action_name = js ''Social Media Commenter'',
        action_description = js ''Reply to posts with short, context-relevant comments.''\<rparr>,
      \<lparr>action_id = js ''prompt-factory'',
        action_name = js ''Prompt Factory (Core)'',
        action_description = js ''Create, edit, and reuse custom prompts in categories, with history & versioning.''\<rparr>,
      \<lparr>action_id = js ''validation-engine'',
        action_name = js ''Validation & Testing Engine'',
        action_description = js ''Test prompt responses for correctness, tone, or factual consistency.''\<rparr>,
      \<lparr>action_id = js ''automation-actions'',
        action_name = js ''Automation Actions (Mini Agents)'',
        action_description = js ''Allow simple automations like: Extract + summarize, Rewrite + post comment.''\<rparr>,
      \<lparr>action_id = js ''voice-control'',
        action_name = js ''Voice-to-Prompt / Speech Command'',
        action_description = js ''Speak instructions; AI executes them and responds vocally.''\<rparr>,
      \<lparr>action_id = js ''vision-integration'',
        action_name = js ''Vision Integration (OCR + Image Understanding)'',
        action_description = js ''Upload an image or screenshot and ask AI to describe its content.''\<rparr>,
      \<lparr>action_id = js ''auto-agent-composer'',
        action_name = js ''Auto Agent Composer'',
        action_description = js ''Dynamically creates micro-agents for different tasks based on a high-level goal.''\<rparr>,
      \<lparr>action_id = js ''llm-switch-optimizer'',
        action_name = js ''LLM-Switch Optimiser'',
        action_description = js ''Automatically picks the best model (Claude '' @ [8594] @ js '' GPT '' @ [8594] @ js '' Gemini '' @ [8594] @ js '' local) based on task, cost, and speed.''\<rparr>,
      \<lparr>action_id = js ''debugging-tools'',
        action_name = js ''Debugging & Developer Tools'',
        action_description = js ''Inspect model responses, latency, and API logs. Enable '' @ [34] @ js ''Developer Mode'' @ [34] @ js ''.''\<rparr>,
      \<lparr>action_id = js ''web-validation-suite'',
        action_name = js ''Web Validation Suite'',
        action_description = js ''Run accessibility, SEO, and performance audits on webpage content.''\<rparr>,
      \<lparr>action_id = js ''ci-notifications'',
        action_name = js ''Browser-Integrated CI Notifications'',
        action_description = js ''Summarize GitHub Actions/Jenkins build statuses.''\<rparr>,
      \<lparr>action_id = js ''plugin-sdk'',
        action_name = js ''Plugin System (Neurivox Modules)'',
        action_description = js ''Outline steps to build custom Neurivox plug-ins.''\<rparr>,
      \<lparr>action_id = js ''cross-app-actions'',
        action_name = js ''Cross-App Actions'',
        action_description = js ''Simulate sending content to Notion, Gmail, GitHub Gist, etc.''\<rparr>,
      \<lparr>action_id = js ''cloud-sync'',
        action_name = js ''Cloud Sync + Account Login'',
        action_description = js ''Explain the process of syncing prompts/settings across browsers.''\<rparr>,
      \<lparr>action_id = js ''analytics-dashboard'',
        action_name = js ''Analytics Dashboard'',
        action_description = js ''Interpret AI usage, token spend, success/failure stats.''\<rparr>,
      \<lparr>action_id = js ''llm-gateway-support'',
        action_name = js ''LLM Gateway Support'',
        action_description = js ''Explain integrating open-source or private endpoints (Groq, Together, Anthropic, etc.).''\<rparr>,
      \<lparr>action_id = js ''privacy-settings'',
        action_name = js ''Privacy, Safety & Governance'',
        action_description = js ''Understand local encryption, granular permissions, audit trail, and data redaction.''\<rparr>,
      \<lparr>action_id = js ''multi-agent-collaboration'',
        action_name = js ''Multi-Agent Collaboration View'',
        action_description = js ''Simulate how Navigator, Planner, and Executor agents would interact for complex tasks.''\<rparr>,
      \<lparr>action_id = js ''neurivox-copilot'',
        action_name = js ''Neurivox Copilot Mode'',
        action_description = js ''Simulate an OS-level AI proactively offering suggestions and automation.''\<rparr>,
      \<lparr>action_id = js ''live-learning-loop'',
        action_name = js ''Live Learning Loop'',
        action_description = js ''Explain how the AI adapts based on your usage and feedback (personalized intelligence).''\<rparr>,
      \<lparr>action_id = js ''ar-vr-overlay'',
        action_name = js ''AR/VR Browser Overlay'',
        action_description = js ''Describe how AI-generated insights could be visualized in mixed reality over browser content.''\<rparr>
     ]"


section \<open>Notions used to state the properties\<close>

text \<open>A string is blank when it is empty or consists of white space only.\<close>

definition blank :: "jsstring \<Rightarrow> bool" where
  "blank s = list_all isWhiteSpace s"

text \<open>Two states agree on the component's React state and notifications.\<close>

definition same_ui :: "run_state \<Rightarrow> run_state \<Rightarrow> bool" where
  "same_ui st st' \<longleftrightarrow>
     isLoading st' = isLoading st \<and> error st' = error st
     \<and> automationOutput st' = automationOutput st
     \<and> isApiKeyMissing st' = isApiKeyMissing st
     \<and> completions st' = completions st"

text \<open>The request that the branch of an action sends to the model for a given payload.\<close>

definition step_request :: "jsstring \<Rightarrow> AIAction \<Rightarrow> AutomationStep \<Rightarrow> jsstring \<Rightarrow> api_request" where
  "step_request model action step payload =
     (if action_id action = js ''vision-integration'' then
        ImageRequest (js ''gemini-2.5-flash-image'')
          (case split 0x3B payload of [] \<Rightarrow> None | part # _ \<Rightarrow> at_index (split 0x3A part) 1)
          (at_index (split 0x2C payload) 1)
          (js ''Describe this image in detail.'')
      else TextRequest model
             (if action_id action = js ''social-commenter''
              then social_prompt (emojiMode_of (options step)) payload
              else payload)
             (if action_description action \<noteq> [] then Some (action_description action) else None))"

text \<open>The two entries the executor logs around a step, and their messages for a pipeline.\<close>

definition start_entry :: "nat \<Rightarrow> AIAction \<Rightarrow> AutomationStep \<Rightarrow> jsstring \<Rightarrow> DebugLogEntry" where
  "start_entry i action step payload =
     \<lparr>level = INFO,
      message = js ''Executing step '' @ show_nat (i + 1) @ js '': '' @ action_name action,
      details = [(''actionId'', DString (action_id action)),
                 (''input'', DString payload),
                 (''options'', DOptions (options step))]\<rparr>"

definition completion_entry :: "nat \<Rightarrow> jsstring \<Rightarrow> DebugLogEntry" where
  "completion_entry i stepOutput =
     \<lparr>level = INFO,
      message = js ''Step '' @ show_nat (i + 1) @ js '' completed.'',
      details = [(''output'', DString (preview stepOutput))]\<rparr>"

definition action_name_of :: "AIAction list \<Rightarrow> AutomationStep \<Rightarrow> jsstring" where
  "action_name_of acts step =
     (case find (\<lambda>a. action_id a = actionId step) acts of
        None \<Rightarrow> [] | Some a \<Rightarrow> action_name a)"

fun step_messages :: "AIAction list \<Rightarrow> nat \<Rightarrow> AutomationStep list \<Rightarrow> jsstring list" where
  "step_messages acts i [] = []"
| "step_messages acts i (step # rest) =
     [js ''Executing step '' @ show_nat (i + 1) @ js '': '' @ action_name_of acts step,
      js ''Step '' @ show_nat (i + 1) @ js '' completed.'']
     @ step_messages acts (i + 1) rest"

text \<open>The state in which \<open>runAutomation\<close> enters its loop when the API key is set.\<close>

definition loop_entry :: "jsstring \<Rightarrow> AutomationStep list \<Rightarrow> jsstring \<Rightarrow> run_state \<Rightarrow> run_state" where
  "loop_entry automationName steps initialAutomationInput st =
     (log \<lparr>level = INFO,
            message = js ''Starting automation: '' @ name_or_untitled automationName,
            details = [(''initialInput'', DString initialAutomationInput),
                       (''steps'', DSteps steps)]\<rparr>
          (st\<lparr>isLoading := True, error := None, automationOutput := []\<rparr>))
       \<lparr>isApiKeyMissing := False\<rparr>"

text \<open>
  What the listeners of a list throw, in order, when they are called one after the other
  from a given world.
\<close>

fun thrown :: "('a, 'w) behaviour \<Rightarrow> 'a \<Rightarrow> listener list \<Rightarrow> 'w \<Rightarrow> exn list" where
  "thrown run args [] w = []"
| "thrown run args (l # ls) w =
     (case run l args w of
        (None, w') \<Rightarrow> thrown run args ls w'
      | (Some e, w') \<Rightarrow> e # thrown run args ls w')"

text \<open>The entries of a log at one level.\<close>

definition entries_at :: "DebugLogLevel \<Rightarrow> DebugLogEntry list \<Rightarrow> DebugLogEntry list" where
  "entries_at lvl entries = filter (\<lambda>e. level e = lvl) entries"

text \<open>
  The requests sent by a run are threaded through \<open>steps\<close> from \<open>payload\<close>: each request is
  the one its step's action builds for the current payload and is answered by the service
  on the calls made so far; the payload of the next step is the text of that reply,
  trimmed. The requests may stop before the steps do, and they stop at a reply without text.
\<close>

fun threaded :: "service \<Rightarrow> jsstring \<Rightarrow> AIAction list \<Rightarrow> AutomationStep list \<Rightarrow> jsstring
                   \<Rightarrow> api_call list \<Rightarrow> api_call list \<Rightarrow> bool" where
  "threaded ai model acts [] payload history sent = (sent = [])"
| "threaded ai model acts (step # rest) payload history [] = True"
| "threaded ai model acts (step # rest) payload history ((request, reply) # sent) =
     (case find (\<lambda>a. action_id a = actionId step) acts of
        None \<Rightarrow> False
      | Some action \<Rightarrow>
          request = step_request model action step payload
          \<and> reply = ai history request
          \<and> (case outcome reply of
                Inr (Some t) \<Rightarrow>
                  threaded ai model acts rest (trim t) (history @ [(request, reply)]) sent
              | _ \<Rightarrow> sent = []))"

text \<open>A string has a decimal digit in it.\<close>

definition has_digit :: "jsstring \<Rightarrow> bool" where
  "has_digit s = list_ex (\<lambda>c. 0x30 \<le> c \<and> c \<le> 0x39) s"


section \<open>Sample data\<close>

text \<open>
  A model service that answers the n-th call with the n-th reply of a script (and fails
  once the script is used up), an environment with an API key, the component's state
  before any run, and a step that only names its action.
\<close>

definition scripted :: "(exn + jsstring option) list \<Rightarrow> service" where
  "scripted script history request =
     \<lparr>outcome = (case at_index script (length history) of
                    Some r \<Rightarrow> r
                  | None \<Rightarrow> Inl (Error (js ''script exhausted''))),
      elapsed = js ''1.00''\<rparr>"

definition sample_env :: environment where
  "sample_env = \<lparr>env_API_KEY = Some (js ''key''), localStorage_apiKey_gemini = None\<rparr>"

definition idle :: run_state where
  "idle = \<lparr>isLoading = False, error = None, automationOutput = [], isApiKeyMissing = False,
           completions = [], logs = [], console = [], calls = []\<rparr>"

definition step_of :: "jsstring \<Rightarrow> AutomationStep" where
  "step_of a = \<lparr>actionId = a, inputKey = None, outputKey = None, options = Some []\<rparr>"

text \<open>The first action of the catalogue.\<close>

definition Summariser :: AIAction where
  "Summariser = \<lparr>action_id = js ''summarize'', action_name = js ''Summariser'',
                   action_description = js ''Summarise any text or webpage (3-5 key ideas).''\<rparr>"


section \<open>Properties of the event emitter\<close>

lemma invoked_call_listener:
  "invoked (call_listener run eventName args l s) = invoked s @ [l]"
  by (simp add: call_listener_def split: prod.splits option.splits)

lemma invoked_forEach:
  "invoked (forEach run eventName args ls s) = invoked s @ ls"
  by (induction ls arbitrary: s) (simp_all add: invoked_call_listener)

lemma toString_inherited: "js ''toString'' \<in> set object_prototype_keys"
  by (simp add: object_prototype_keys_def)

lemma debugLog_not_inherited: "js ''debugLog'' \<notin> set object_prototype_keys"
  by (simp add: object_prototype_keys_def js_def)

lemma console_forEach:
  "console_error (forEach run eventName args ls s)
     = console_error s
       @ map (\<lambda>e. (js ''Error in event listener for '' @ eventName @ js '':'', e))
             (thrown run args ls (world s))"
  by (induction ls arbitrary: s)
     (auto simp add: call_listener_def split: prod.splits option.splits)

text \<open>
  For an event name that is not the name of an inherited property, \<open>emit\<close> returns
  normally whatever the listeners do, having called every registered listener once, in
  registration order, and having written one \<open>console.error\<close> line for each exception a
  listener threw.
\<close>

lemma emit_isolates_listeners:
  assumes "eventName \<notin> set object_prototype_keys"
  shows "\<exists>s'. emit run listeners eventName args s = Inr s'
            \<and> invoked s' = invoked s @ registered listeners eventName
            \<and> console_error s'
                = console_error s
                  @ map (\<lambda>e. (js ''Error in event listener for '' @ eventName @ js '':'', e))
                        (thrown run args (registered listeners eventName) (world s))"
  using assms
  by (simp add: emit_def read_slot_def registered_def invoked_forEach console_forEach
           split: option.splits)

lemma on_eq:
  assumes "eventName \<notin> set object_prototype_keys"
  shows "on listeners eventName h
           = Inr (listeners(eventName \<mapsto> registered listeners eventName @ [h]), (eventName, h))"
  using assms by (cases "listeners eventName") (simp_all add: on_def read_slot_def registered_def)

lemma off_eq:
  assumes "eventName \<notin> set object_prototype_keys"
  shows "off listeners eventName h
           = Inr (case listeners eventName of
                    None \<Rightarrow> listeners
                  | Some ls \<Rightarrow> listeners(eventName \<mapsto> filter (\<lambda>l. l \<noteq> h) ls))"
  using assms by (cases "listeners eventName") (simp_all add: off_def read_slot_def)

text \<open>
  C1. Publishing is meant never to throw, for every event name. On a fresh emitter,
  publishing under the event name \<open>toString\<close> throws: the guard
  \<open>if (!this.listeners[eventName]) return\<close> reads the function inherited from
  \<open>Object.prototype\<close>, which is truthy, and the call of its missing \<open>forEach\<close> raises a
  TypeError that nothing catches.
\<close>

theorem emit_inherited_name_throws:
  "emit (\<lambda>l entry w. (None, w)) Map.empty (js ''toString'') ()
        \<lparr>world = (), invoked = [], console_error = []\<rparr>
     = Inl (TypeError (js ''this.listeners[eventName].forEach is not a function''))"
  by (simp add: emit_def read_slot_def toString_inherited)

text \<open>
  C9, as stated, fails: with the same listener registered twice under one event name,
  one call of the unsubscribe function removes both registrations, not exactly one.
\<close>

theorem unsubscribe_exactly_one_counterexample:
  "on [js ''debugLog'' \<mapsto> [7]] (js ''debugLog'') 7
      = Inr ([js ''debugLog'' \<mapsto> [7, 7]], (js ''debugLog'', 7))
   \<and> unsubscribe (js ''debugLog'', 7) [js ''debugLog'' \<mapsto> [7, 7]]
      = Inr [js ''debugLog'' \<mapsto> []]"
  by (simp add: on_def unsubscribe_def off_def read_slot_def)

text \<open>
  C9, amended. For an event name that is not the name of an inherited property,
  \<open>on\<close> appends the listener to the event's list and leaves every other event alone;
  the unsubscribe function it returns removes every registration of that listener under
  that event name, keeps the other listeners of the event in their order, and leaves
  every other event alone; and a second call of it changes nothing.
\<close>

theorem subscribe_then_unsubscribe:
  assumes "eventName \<notin> set object_prototype_keys"
  shows "\<exists>r1 u r2.
           on listeners eventName h = Inr (r1, u)
         \<and> registered r1 eventName = registered listeners eventName @ [h]
         \<and> (\<forall>e. e \<noteq> eventName \<longrightarrow> r1 e = listeners e)
         \<and> unsubscribe u r1 = Inr r2
         \<and> registered r2 eventName = filter (\<lambda>l. l \<noteq> h) (registered listeners eventName)
         \<and> (\<forall>e. e \<noteq> eventName \<longrightarrow> r2 e = listeners e)
         \<and> unsubscribe u r2 = Inr r2"
proof -
  let ?old = "registered listeners eventName"
  let ?r1 = "listeners(eventName \<mapsto> ?old @ [h])"
  let ?r2 = "listeners(eventName \<mapsto> filter (\<lambda>l. l \<noteq> h) ?old)"
  have 1: "on listeners eventName h = Inr (?r1, (eventName, h))"
    by (rule on_eq [OF assms])
  have 2: "unsubscribe (eventName, h) ?r1 = Inr ?r2"
    by (simp add: unsubscribe_def off_eq [OF assms])
  have 3: "unsubscribe (eventName, h) ?r2 = Inr ?r2"
    by (simp add: unsubscribe_def off_eq [OF assms])
  have 4: "registered ?r1 eventName = ?old @ [h]"
    and 5: "registered ?r2 eventName = filter (\<lambda>l. l \<noteq> h) ?old"
    by (simp_all add: registered_def)
  have 6: "\<forall>e. e \<noteq> eventName \<longrightarrow> ?r1 e = listeners e"
    and 7: "\<forall>e. e \<noteq> eventName \<longrightarrow> ?r2 e = listeners e"
    by simp_all
  from 1 2 3 4 5 6 7 show ?thesis by blast
qed

theorem subscribe_then_unsubscribe_witness:
  "js ''debugLog'' \<notin> set object_prototype_keys
   \<and> (\<exists>r1 u r2.
         on [js ''debugLog'' \<mapsto> [3, 7]] (js ''debugLog'') 7 = Inr (r1, u)
       \<and> registered r1 (js ''debugLog'') = [3, 7, 7]
       \<and> unsubscribe u r1 = Inr r2
       \<and> registered r2 (js ''debugLog'') = [3]
       \<and> unsubscribe u r2 = Inr r2)"
proof -
  have h: "js ''debugLog'' \<notin> set object_prototype_keys"
    by (rule debugLog_not_inherited)
  from subscribe_then_unsubscribe [OF h, of "[js ''debugLog'' \<mapsto> [3, 7]]" 7]
  obtain r1 u r2 where
    "on [js ''debugLog'' \<mapsto> [3, 7]] (js ''debugLog'') 7 = Inr (r1, u)"
    "registered r1 (js ''debugLog'')
       = registered [js ''debugLog'' \<mapsto> [3, 7]] (js ''debugLog'') @ [7]"
    "unsubscribe u r1 = Inr r2"
    "registered r2 (js ''debugLog'')
       = filter (\<lambda>l. l \<noteq> 7) (registered [js ''debugLog'' \<mapsto> [3, 7]] (js ''debugLog''))"
    "unsubscribe u r2 = Inr r2"
    by blast
  moreover have "registered [js ''debugLog'' \<mapsto> [3, 7]] (js ''debugLog'') = [3, 7::nat]"
    by (simp add: registered_def)
  ultimately show ?thesis
    using h by auto
qed


section \<open>Properties of the automation executor\<close>

lemma calls_log [simp]: "calls (log e st) = calls st"
  by (simp add: log_def)

lemma logs_log [simp]: "logs (log e st) = logs st @ [e]"
  by (simp add: log_def)

lemma same_ui_refl [simp]: "same_ui st st"
  by (simp add: same_ui_def)

lemma same_ui_log [simp]: "same_ui st (log e st') = same_ui st st'"
  by (simp add: same_ui_def log_def)

lemma same_ui_log_left [simp]: "same_ui (log e st) st' = same_ui st st'"
  by (simp add: same_ui_def log_def)

lemma same_ui_trans: "same_ui a b \<Longrightarrow> same_ui b c \<Longrightarrow> same_ui a c"
  by (simp add: same_ui_def)

subsection \<open>The model service\<close>

lemma generateTextContent_Inr:
  assumes "generateTextContent ai env m p si st = (Inr tx, st')"
  defines "rq \<equiv> TextRequest m p (if si \<noteq> [] then Some si else None)"
  shows "\<exists>e1 e2. logs st' = logs st @ [e1, e2] \<and> level e1 = API_CALL \<and> level e2 = API_RESPONSE"
    and "calls st' = calls st @ [(rq, ai (calls st) rq)]"
    and "outcome (ai (calls st) rq) = Inr tx"
    and "same_ui st st'"
  using assms
  by (auto simp add: generateTextContent_def Let_def same_ui_def log_def
           split: sum.splits if_splits)

lemma generateTextContent_Inl:
  assumes "generateTextContent ai env m p si st = (Inl e, st')"
  shows "\<exists>L. logs st' = logs st @ L \<and> list_all (\<lambda>e. level e = API_CALL \<or> level e = ERROR) L"
    and "\<exists>C. calls st' = calls st @ C \<and> length C \<le> 1"
    and "same_ui st st'"
  using assms
  by (auto simp add: generateTextContent_def Let_def same_ui_def log_def
           split: sum.splits if_splits)

lemma generateImages_Inr:
  assumes "generateImages ai env p part st = (Inr r, st')"
  defines "rq \<equiv> ImageRequest (js ''gemini-2.5-flash-image'') (fst part) (snd part) p"
  shows "logs st' = logs st"
    and "calls st' = calls st @ [(rq, ai (calls st) rq)]"
    and "\<exists>tx. r = Response tx \<and> outcome (ai (calls st) rq) = Inr tx"
    and "same_ui st st'"
  using assms
  by (auto simp add: generateImages_def Let_def same_ui_def split: sum.splits if_splits)

lemma generateImages_Inl:
  assumes "generateImages ai env p part st = (Inl e, st')"
  shows "logs st' = logs st"
    and "\<exists>C. calls st' = calls st @ C \<and> length C \<le> 1"
    and "same_ui st st'"
  using assms
  by (auto simp add: generateImages_def Let_def same_ui_def split: sum.splits if_splits)

subsection \<open>One step\<close>

lemma complete_step_eq:
  "complete_step i out st =
     (Inr (out, startsWith out (js ''data:image/'')), log (completion_entry i out) st)"
  by (simp add: complete_step_def completion_entry_def Let_def)

lemma trim_text_Inr: "trim_text tx = Inr out \<longleftrightarrow> (\<exists>t. tx = Some t \<and> out = trim t)"
  by (auto simp add: trim_text_def split: option.splits)

text \<open>The four ways through the loop body, by the action the step names.\<close>

lemma run_step_unknown:
  assumes "find (\<lambda>a. action_id a = actionId s) acts = None"
  shows "run_step ai env acts m i s cur img st
           = (Inl (Error (js ''Invalid action ID: '' @ actionId s @ js '' at step '' @ show_nat (i + 1))), st)"
  using assms by (simp add: run_step_def)

lemma run_step_vision:
  assumes "find (\<lambda>a. action_id a = actionId s) acts = Some a"
      and "action_id a = js ''vision-integration''"
  shows "run_step ai env acts m i s cur img st =
     (let st1 = log (start_entry i a s cur) st in
      if \<not> startsWith cur (js ''data:image/'') then
        (Inl (Error (js ''Vision Integration requires an image input (base64 data URL). Current input is not an image.'')), st1)
      else
        case generateImages ai env (js ''Describe this image in detail.'')
               (case split 0x3B cur of [] \<Rightarrow> None | part # _ \<Rightarrow> at_index (split 0x3A part) 1,
                at_index (split 0x2C cur) 1) st1 of
          (Inl e, st2) \<Rightarrow> (Inl e, st2)
        | (Inr (ImageUrls urls), st2) \<Rightarrow>
            (Inl (Error (js ''Vision integration did not return expected text output.'')), st2)
        | (Inr (Response tx), st2) \<Rightarrow>
            (case trim_text tx of
               Inl e \<Rightarrow> (Inl e, st2)
             | Inr stepOutput \<Rightarrow> complete_step i stepOutput st2))"
  using assms by (simp add: run_step_def start_entry_def Let_def)

lemma run_step_social:
  assumes "find (\<lambda>a. action_id a = actionId s) acts = Some a"
      and "action_id a \<noteq> js ''vision-integration''"
      and "action_id a = js ''social-commenter''"
  shows "run_step ai env acts m i s cur img st =
     (case generateTextContent ai env m (social_prompt (emojiMode_of (options s)) cur)
             (action_description a) (log (start_entry i a s cur) st) of
        (Inl e, st2) \<Rightarrow> (Inl e, st2)
      | (Inr tx, st2) \<Rightarrow>
          (case trim_text tx of
             Inl e \<Rightarrow> (Inl e, st2)
           | Inr stepOutput \<Rightarrow> complete_step i stepOutput st2))"
  using assms by (simp add: run_step_def start_entry_def Let_def)

lemma run_step_generic:
  assumes "find (\<lambda>a. action_id a = actionId s) acts = Some a"
      and "action_id a \<noteq> js ''vision-integration''"
      and "action_id a \<noteq> js ''social-commenter''"
  shows "run_step ai env acts m i s cur img st =
     (if img then
        (Inl (Error (js ''Text-based action '' @ [39] @ action_name a @ [39]
                      @ js '' cannot process image input from previous step.'')),
         log (start_entry i a s cur) st)
      else
        case generateTextContent ai env m cur (action_description a)
               (log (start_entry i a s cur) st) of
          (Inl e, st2) \<Rightarrow> (Inl e, st2)
        | (Inr tx, st2) \<Rightarrow>
            (case trim_text tx of
               Inl e \<Rightarrow> (Inl e, st2)
             | Inr stepOutput \<Rightarrow> complete_step i stepOutput st2))"
  using assms by (simp add: run_step_def start_entry_def Let_def)

text \<open>
  A step that succeeds has sent exactly one request, the one of its action for the
  current payload; its output is the trimmed text of the reply, and the image flag says
  whether that output starts with the image marker.
\<close>

lemma run_step_Inr:
  assumes run: "run_step ai env acts m i s cur img st = (Inr (out, b), st')"
  shows "\<exists>a t mid.
            find (\<lambda>a. action_id a = actionId s) acts = Some a
          \<and> calls st' = calls st @ [(step_request m a s cur, ai (calls st) (step_request m a s cur))]
          \<and> outcome (ai (calls st) (step_request m a s cur)) = Inr (Some t)
          \<and> out = trim t
          \<and> b = startsWith out (js ''data:image/'')
          \<and> logs st' = logs st @ [start_entry i a s cur] @ mid @ [completion_entry i out]
          \<and> list_all (\<lambda>e. level e = API_CALL \<or> level e = API_RESPONSE) mid
          \<and> same_ui st st'"
proof -
  obtain a where fnd: "find (\<lambda>a. action_id a = actionId s) acts = Some a"
    using run by (cases "find (\<lambda>a. action_id a = actionId s) acts") (simp_all add: run_step_unknown)
  let ?st1 = "log (start_entry i a s cur) st"
  let ?rq = "step_request m a s cur"
  consider (vision) "action_id a = js ''vision-integration''"
    | (social) "action_id a \<noteq> js ''vision-integration''" "action_id a = js ''social-commenter''"
    | (generic) "action_id a \<noteq> js ''vision-integration''" "action_id a \<noteq> js ''social-commenter''"
    by blast
  then show ?thesis
  proof cases
    case vision
    from run obtain tx st2 where
      g: "generateImages ai env (js ''Describe this image in detail.'')
             (case split 0x3B cur of [] \<Rightarrow> None | part # _ \<Rightarrow> at_index (split 0x3A part) 1,
              at_index (split 0x2C cur) 1) ?st1 = (Inr (Response tx), st2)"
      and t: "trim_text tx = Inr out" and c: "complete_step i out st2 = (Inr (out, b), st')"
      unfolding run_step_vision [OF fnd vision]
      by (auto simp add: Let_def complete_step_eq
               split: if_splits prod.splits sum.splits image_result.splits)
    from t obtain t' where t': "tx = Some t'" "out = trim t'" by (auto simp add: trim_text_Inr)
    have rq: "?rq = ImageRequest (js ''gemini-2.5-flash-image'')
                 (case split 0x3B cur of [] \<Rightarrow> None | part # _ \<Rightarrow> at_index (split 0x3A part) 1)
                 (at_index (split 0x2C cur) 1) (js ''Describe this image in detail.'')"
      using vision by (simp add: step_request_def)
    from generateImages_Inr [OF g] have
      l: "logs st2 = logs st @ [start_entry i a s cur]"
      and cl: "calls st2 = calls st @ [(?rq, ai (calls st) ?rq)]"
      and oc: "outcome (ai (calls st) ?rq) = Inr tx"
      and ui: "same_ui st st2"
      by (simp_all add: rq)
    from c have st': "st' = log (completion_entry i out) st2" "b = startsWith out (js ''data:image/'')"
      by (simp_all add: complete_step_eq)
    show ?thesis
      apply (rule exI [of _ a], rule exI [of _ t'], rule exI [of _ "[]"])
      using l fnd cl oc ui st' t' by simp
  next
    case social
    from run obtain tx st2 where
      g: "generateTextContent ai env m (social_prompt (emojiMode_of (options s)) cur)
             (action_description a) ?st1 = (Inr tx, st2)"
      and t: "trim_text tx = Inr out" and c: "complete_step i out st2 = (Inr (out, b), st')"
      unfolding run_step_social [OF fnd social]
      by (auto simp add: complete_step_eq split: if_splits prod.splits sum.splits)
    from t obtain t' where t': "tx = Some t'" "out = trim t'" by (auto simp add: trim_text_Inr)
    have rq: "?rq = TextRequest m (social_prompt (emojiMode_of (options s)) cur)
                 (if action_description a \<noteq> [] then Some (action_description a) else None)"
      using social by (simp add: step_request_def)
    from generateTextContent_Inr [OF g] obtain e1 e2 where
      l: "logs st2 = logs st @ [start_entry i a s cur] @ [e1, e2]"
      and lv: "level e1 = API_CALL" "level e2 = API_RESPONSE"
      and cl: "calls st2 = calls st @ [(?rq, ai (calls st) ?rq)]"
      and oc: "outcome (ai (calls st) ?rq) = Inr tx"
      and ui: "same_ui st st2"
      by (auto simp add: rq)
    from c have st': "st' = log (completion_entry i out) st2" "b = startsWith out (js ''data:image/'')"
      by (simp_all add: complete_step_eq)
    show ?thesis
      apply (rule exI [of _ a], rule exI [of _ t'], rule exI [of _ "[e1, e2]"])
      using l lv fnd cl oc ui st' t' by simp
  next
    case generic
    from run obtain tx st2 where
      g: "generateTextContent ai env m cur (action_description a) ?st1 = (Inr tx, st2)"
      and t: "trim_text tx = Inr out" and c: "complete_step i out st2 = (Inr (out, b), st')"
      unfolding run_step_generic [OF fnd generic]
      by (auto simp add: complete_step_eq split: if_splits prod.splits sum.splits)
    from t obtain t' where t': "tx = Some t'" "out = trim t'" by (auto simp add: trim_text_Inr)
    have rq: "?rq = TextRequest m cur
                 (if action_description a \<noteq> [] then Some (action_description a) else None)"
      using generic by (simp add: step_request_def)
    from generateTextContent_Inr [OF g] obtain e1 e2 where
      l: "logs st2 = logs st @ [start_entry i a s cur] @ [e1, e2]"
      and lv: "level e1 = API_CALL" "level e2 = API_RESPONSE"
      and cl: "calls st2 = calls st @ [(?rq, ai (calls st) ?rq)]"
      and oc: "outcome (ai (calls st) ?rq) = Inr tx"
      and ui: "same_ui st st2"
      by (auto simp add: rq)
    from c have st': "st' = log (completion_entry i out) st2" "b = startsWith out (js ''data:image/'')"
      by (simp_all add: complete_step_eq)
    show ?thesis
      apply (rule exI [of _ a], rule exI [of _ t'], rule exI [of _ "[e1, e2]"])
      using l lv fnd cl oc ui st' t' by simp
  qed
qed

text \<open>A step that fails has sent at most one request.\<close>

lemma run_step_Inl:
  assumes run: "run_step ai env acts m i s cur img st = (Inl e, st')"
  shows "\<exists>C. calls st' = calls st @ C \<and> length C \<le> 1" and "same_ui st st'"
proof -
  have "(\<exists>C. calls st' = calls st @ C \<and> length C \<le> 1) \<and> same_ui st st'"
  proof (cases "find (\<lambda>a. action_id a = actionId s) acts")
    case None
    with run show ?thesis by (simp add: run_step_unknown)
  next
    case (Some a)
    consider (vision) "action_id a = js ''vision-integration''"
      | (social) "action_id a \<noteq> js ''vision-integration''" "action_id a = js ''social-commenter''"
      | (generic) "action_id a \<noteq> js ''vision-integration''" "action_id a \<noteq> js ''social-commenter''"
      by blast
    then show ?thesis
    proof cases
      case vision
      show ?thesis
        using run unfolding run_step_vision [OF Some vision]
        by (auto simp add: Let_def complete_step_eq
                 split: if_splits prod.splits sum.splits image_result.splits
                 dest: generateImages_Inl generateImages_Inr)
    next
      case social
      show ?thesis
        using run unfolding run_step_social [OF Some social]
        by (auto simp add: complete_step_eq split: if_splits prod.splits sum.splits
                 dest: generateTextContent_Inl generateTextContent_Inr)
    next
      case generic
      show ?thesis
        using run unfolding run_step_generic [OF Some generic]
        by (auto simp add: complete_step_eq split: if_splits prod.splits sum.splits
                 dest: generateTextContent_Inl generateTextContent_Inr)
    qed
  qed
  then show "\<exists>C. calls st' = calls st @ C \<and> length C \<le> 1" and "same_ui st st'" by simp_all
qed

subsection \<open>The loop\<close>

lemma run_steps_append:
  "run_steps ai env acts m i (pre @ rest) cur img st =
     (case run_steps ai env acts m i pre cur img st of
        (Inl e, st') \<Rightarrow> (Inl e, st')
      | (Inr (c, b), st') \<Rightarrow> run_steps ai env acts m (i + length pre) rest c b st')"
  by (induction pre arbitrary: i cur img st) (auto split: prod.splits sum.splits)

lemma filter_INFO_api:
  "list_all (\<lambda>e. level e = API_CALL \<or> level e = API_RESPONSE) mid
     \<Longrightarrow> filter (\<lambda>e. level e = INFO) mid = []"
  by (induction mid) auto

lemma no_AUTOMATION_STEP_api:
  "list_all (\<lambda>e. level e = API_CALL \<or> level e = API_RESPONSE) mid
     \<Longrightarrow> list_all (\<lambda>e. level e \<noteq> AUTOMATION_STEP) mid"
  by (induction mid) auto

lemma run_step_Inr_logs:
  assumes run: "run_step ai env acts m i s cur img st = (Inr (out, b), st')"
  shows "\<exists>L. logs st' = logs st @ L
            \<and> map message (filter (\<lambda>e. level e = INFO) L) = step_messages acts i [s]
            \<and> list_all (\<lambda>e. level e \<noteq> AUTOMATION_STEP) L"
proof -
  from run_step_Inr [OF run] obtain a mid where
    fnd: "find (\<lambda>a. action_id a = actionId s) acts = Some a"
    and l: "logs st' = logs st @ [start_entry i a s cur] @ mid @ [completion_entry i out]"
    and mid: "list_all (\<lambda>e. level e = API_CALL \<or> level e = API_RESPONSE) mid"
    by blast
  let ?L = "[start_entry i a s cur] @ mid @ [completion_entry i out]"
  have "map message (filter (\<lambda>e. level e = INFO) ?L) = step_messages acts i [s]"
    using fnd by (simp add: filter_INFO_api [OF mid] start_entry_def completion_entry_def
                            action_name_of_def)
  moreover have "list_all (\<lambda>e. level e \<noteq> AUTOMATION_STEP) ?L"
    using no_AUTOMATION_STEP_api [OF mid] by (simp add: start_entry_def completion_entry_def)
  ultimately show ?thesis using l by blast
qed

text \<open>
  A loop that runs to its end has sent one request per step; the entries it logged at
  level \<open>info\<close> are the start and completion entries of the steps, in order; and after at
  least one step the image flag says whether the current payload starts with the marker.
\<close>

lemma run_steps_Inr:
  assumes "run_steps ai env acts m i steps cur img st = (Inr (out, b), st')"
  shows "length (calls st') = length (calls st) + length steps
       \<and> same_ui st st'
       \<and> (\<exists>L. logs st' = logs st @ L
              \<and> map message (filter (\<lambda>e. level e = INFO) L) = step_messages acts i steps
              \<and> list_all (\<lambda>e. level e \<noteq> AUTOMATION_STEP) L)
       \<and> (if steps = [] then out = cur \<and> b = img else b = startsWith out (js ''data:image/''))"
  using assms
proof (induction steps arbitrary: i cur img st)
  case Nil
  then show ?case by simp
next
  case (Cons s rest)
  from Cons.prems obtain c1 b1 st1 where
    step: "run_step ai env acts m i s cur img st = (Inr (c1, b1), st1)"
    and rest: "run_steps ai env acts m (i + 1) rest c1 b1 st1 = (Inr (out, b), st')"
    by (auto split: prod.splits sum.splits)
  from run_step_Inr [OF step] have
    c1: "length (calls st1) = length (calls st) + 1" and ui1: "same_ui st st1"
    and b1: "b1 = startsWith c1 (js ''data:image/'')"
    by auto
  from run_step_Inr_logs [OF step] obtain L1 where
    l1: "logs st1 = logs st @ L1"
    and m1: "map message (filter (\<lambda>e. level e = INFO) L1) = step_messages acts i [s]"
    and n1: "list_all (\<lambda>e. level e \<noteq> AUTOMATION_STEP) L1"
    by blast
  from Cons.IH [OF rest] obtain L2 where
    c2: "length (calls st') = length (calls st1) + length rest" and ui2: "same_ui st1 st'"
    and l2: "logs st' = logs st1 @ L2"
    and m2: "map message (filter (\<lambda>e. level e = INFO) L2) = step_messages acts (i + 1) rest"
    and n2: "list_all (\<lambda>e. level e \<noteq> AUTOMATION_STEP) L2"
    and fl: "if rest = [] then out = c1 \<and> b = b1 else b = startsWith out (js ''data:image/'')"
    by blast
  have "logs st' = logs st @ (L1 @ L2)" using l1 l2 by simp
  moreover have "map message (filter (\<lambda>e. level e = INFO) (L1 @ L2)) = step_messages acts i (s # rest)"
    using m1 m2 by simp
  moreover have "list_all (\<lambda>e. level e \<noteq> AUTOMATION_STEP) (L1 @ L2)"
    using n1 n2 by simp
  moreover have "b = startsWith out (js ''data:image/'')"
    using fl b1 by (cases "rest = []") simp_all
  ultimately show ?case
    using c1 c2 same_ui_trans [OF ui1 ui2] by auto
qed

lemma run_steps_Inl:
  assumes "run_steps ai env acts m i steps cur img st = (Inl e, st')"
  shows "length (calls st') \<le> length (calls st) + length steps \<and> same_ui st st'"
  using assms
proof (induction steps arbitrary: i cur img st)
  case Nil
  then show ?case by simp
next
  case (Cons s rest)
  show ?case
  proof (cases "run_step ai env acts m i s cur img st")
    case (Pair r st1)
    show ?thesis
    proof (cases r)
      case (Inl e1)
      with Pair Cons.prems have "e1 = e" "st1 = st'" by simp_all
      with Pair Inl run_step_Inl [of ai env acts m i s cur img st e st'] show ?thesis by auto
    next
      case (Inr cb)
      obtain c1 b1 where cb: "cb = (c1, b1)" by (cases cb)
      with Pair Inr have step: "run_step ai env acts m i s cur img st = (Inr (c1, b1), st1)" by simp
      with Cons.prems have rest: "run_steps ai env acts m (i + 1) rest c1 b1 st1 = (Inl e, st')" by simp
      from run_step_Inr [OF step] have "length (calls st1) = length (calls st) + 1" "same_ui st st1"
        by auto
      with Cons.IH [OF rest] show ?thesis by (auto intro: same_ui_trans)
    qed
  qed
qed

subsection \<open>The whole run\<close>

lemma runAutomation_eq:
  assumes "truthy (env_API_KEY env)"
  shows "runAutomation ai env acts m automationName steps input st =
     (case run_steps ai env acts m 0 steps input False (loop_entry automationName steps input st) of
        (Inr (c, b), st') \<Rightarrow>
          (log \<lparr>level = INFO,
                 message = js ''Automation '' @ [34] @ name_or_untitled automationName @ [34]
                           @ js '' finished successfully.'',
                 details = [(''finalOutput'', DString c)]\<rparr>
               (st'\<lparr>automationOutput := c,
                    completions := completions st'
                      @ [js ''Automation '' @ [34] @ automationName @ [34] @ js '' completed.'']\<rparr>))
            \<lparr>isLoading := False\<rparr>
      | (Inl err, st') \<Rightarrow> (catch_block automationName err st')\<lparr>isLoading := False\<rparr>)"
  using assms
  by (simp add: runAutomation_def loop_entry_def Let_def split: prod.splits sum.splits)

lemma show_nat_1 [simp]: "show_nat (Suc 0) = js ''1''"
  by (simp add: show_nat.simps js_def)

lemma js_append: "js a @ js b = js (a @ b)"
  by (simp add: js_def)

lemma log_fields [simp]:
  "isLoading (log e st) = isLoading st"
  "error (log e st) = error st"
  "automationOutput (log e st) = automationOutput st"
  "isApiKeyMissing (log e st) = isApiKeyMissing st"
  "completions (log e st) = completions st"
  "console (log e st) = console st"
  by (simp_all add: log_def)

lemma logs_catch_block:
  "logs (catch_block automationName err st)
     = logs st @ [\<lparr>level = ERROR,
                    message = js ''Automation '' @ [34] @ name_or_untitled automationName @ [34]
                              @ js '' failed.'',
                    details = [(''error'', DString (message_or_String err))]\<rparr>]"
  by (simp add: catch_block_def Let_def)

lemma calls_catch_block [simp]: "calls (catch_block automationName err st) = calls st"
  by (simp add: catch_block_def Let_def)

lemma error_catch_block:
  "error (catch_block automationName err st)
     = Some (if includes_js (exn_message err) (js ''API Key is not configured'')
             then api_key_message
             else js ''Failed to run automation: '' @ exn_message err)"
  by (simp add: catch_block_def Let_def)

lemma automationOutput_catch_block [simp]:
  "automationOutput (catch_block automationName err st) = automationOutput st"
  by (simp add: catch_block_def Let_def)

lemma loop_entry_fields [simp]:
  "calls (loop_entry n steps input st) = calls st"
  "automationOutput (loop_entry n steps input st) = []"
  "error (loop_entry n steps input st) = None"
  "completions (loop_entry n steps input st) = completions st"
  by (simp_all add: loop_entry_def log_def)

lemma message_Error [simp]: "exn_message (Error m) = m"
  by (simp add: Error_def)

lemma message_or_String_Error: "m \<noteq> [] \<Longrightarrow> message_or_String (Error m) = m"
  by (simp add: message_or_String_def)

text \<open>A first step whose action id is not in the catalogue.\<close>

lemma unknown_first_step:
  fixes ai env acts m automationName s rest input st
  defines "msg \<equiv> js ''Invalid action ID: '' @ actionId s @ js '' at step 1''"
      and "final \<equiv> runAutomation ai env acts m automationName (s # rest) input st"
  assumes key: "truthy (env_API_KEY env)"
      and unknown: "find (\<lambda>a. action_id a = actionId s) acts = None"
  shows "calls final = calls st
       \<and> last (logs final)
           = \<lparr>level = ERROR,
              message = js ''Automation '' @ [34] @ name_or_untitled automationName @ [34]
                        @ js '' failed.'',
              details = [(''error'', DString msg)]\<rparr>
       \<and> error final
           = Some (if includes_js msg (js ''API Key is not configured'') then api_key_message
                   else js ''Failed to run automation: '' @ msg)
       \<and> automationOutput final = []
       \<and> \<not> isLoading final"
proof -
  have ne: "msg \<noteq> []" by (simp add: msg_def js_def)
  have run: "run_steps ai env acts m 0 (s # rest) input False (loop_entry automationName (s # rest) input st)
               = (Inl (Error msg), loop_entry automationName (s # rest) input st)"
    by (simp add: run_step_unknown [OF unknown] msg_def js_append)
  have final: "final = (catch_block automationName (Error msg)
                          (loop_entry automationName (s # rest) input st))\<lparr>isLoading := False\<rparr>"
    unfolding final_def runAutomation_eq [OF key] run by simp
  show ?thesis
    unfolding final
    by (simp add: logs_catch_block error_catch_block message_or_String_Error [OF ne])
qed



subsection \<open>Blank input\<close>

lemma trim_empty_iff: "trim s = [] \<longleftrightarrow> blank s"
proof -
  let ?d = "dropWhile isWhiteSpace s"
  have "(\<forall>x\<in>set ?d. isWhiteSpace x) \<longleftrightarrow> (\<forall>x\<in>set s. isWhiteSpace x)"
  proof
    assume all: "\<forall>x\<in>set ?d. isWhiteSpace x"
    have "?d = []"
    proof (cases ?d)
      case Nil
      then show ?thesis .
    next
      case (Cons y ys)
      then have "\<not> isWhiteSpace y"
        using hd_dropWhile [of isWhiteSpace s] by auto
      with all Cons show ?thesis by simp
    qed
    then show "\<forall>x\<in>set s. isWhiteSpace x"
      by (simp only: dropWhile_eq_Nil_conv)
  next
    assume "\<forall>x\<in>set s. isWhiteSpace x"
    then show "\<forall>x\<in>set ?d. isWhiteSpace x"
      by (meson set_dropWhileD)
  qed
  then show ?thesis
    by (simp add: trim_def blank_def dropWhile_eq_Nil_conv list_all_iff)
qed


subsection \<open>Further lemmas and sample runs\<close>

lemma sample_env_key: "truthy (env_API_KEY sample_env)"
  by (simp add: sample_env_def truthy_def js_def)

lemma find_unknown_action:
  "find (\<lambda>a. action_id a = actionId (step_of (js ''unknown-action''))) WORKSPACES_availableActions = None"
  by (simp add: WORKSPACES_availableActions_def step_of_def js_def)

lemma unknown_message_no_key_phrase:
  "\<not> includes_js (js ''Invalid action ID: unknown-action at step 1'') (js ''API Key is not configured'')"
  by (simp add: js_def startsWith_def)

lemma getGeminiClient_key:
  assumes "truthy (env_API_KEY env)"
  shows "\<exists>key. getGeminiClient env None = Inr key"
  using assms
  by (auto simp add: getGeminiClient_def truthy_def Let_def split: option.splits)

text \<open>With a key, \<open>generateTextContent\<close> always sends its request.\<close>

lemma if_singleton_nonempty [simp]: "((if c then [x] else []) \<noteq> []) = c"
  by simp

lemma generateTextContent_sends:
  fixes m p si
  assumes "truthy (env_API_KEY env)"
  defines "rq \<equiv> TextRequest m p (if si \<noteq> [] then Some si else None)"
  shows "calls (snd (generateTextContent ai env m p si st)) = calls st @ [(rq, ai (calls st) rq)]"
    and "same_ui st (snd (generateTextContent ai env m p si st))"
    and "fst (generateTextContent ai env m p si st)
           = (case outcome (ai (calls st) rq) of
                Inr tx \<Rightarrow> Inr tx
              | Inl e \<Rightarrow> Inl (Error (js ''Failed to generate content: '' @ exn_message e)))"
proof -
  obtain key where k: "getGeminiClient env None = Inr key"
    using getGeminiClient_key [OF assms(1)] by blast
  have "calls (snd (generateTextContent ai env m p si st)) = calls st @ [(rq, ai (calls st) rq)]
      \<and> same_ui st (snd (generateTextContent ai env m p si st))
      \<and> fst (generateTextContent ai env m p si st)
           = (case outcome (ai (calls st) rq) of
                Inr tx \<Rightarrow> Inr tx
              | Inl e \<Rightarrow> Inl (Error (js ''Failed to generate content: '' @ exn_message e)))"
  proof (cases "outcome (ai (calls st) rq)")
    case (Inl e)
    then show ?thesis
      unfolding rq_def
      by (simp add: generateTextContent_def k Let_def same_ui_def split del: if_split)
  next
    case (Inr tx)
    then show ?thesis
      unfolding rq_def
      by (simp add: generateTextContent_def k Let_def same_ui_def split del: if_split)
  qed
  then show "calls (snd (generateTextContent ai env m p si st)) = calls st @ [(rq, ai (calls st) rq)]"
    and "same_ui st (snd (generateTextContent ai env m p si st))"
    and "fst (generateTextContent ai env m p si st)
           = (case outcome (ai (calls st) rq) of
                Inr tx \<Rightarrow> Inr tx
              | Inl e \<Rightarrow> Inl (Error (js ''Failed to generate content: '' @ exn_message e)))"
    by simp_all
qed

text \<open>
  A text action other than the social commenter, reached with the image flag clear: the
  request carries the current payload as its prompt, unchanged.
\<close>

lemma generic_step:
  fixes m cur
  assumes key: "truthy (env_API_KEY env)"
      and fnd: "find (\<lambda>a. action_id a = actionId s) acts = Some a"
      and nv: "action_id a \<noteq> js ''vision-integration''"
      and ns: "action_id a \<noteq> js ''social-commenter''"
  defines "rq \<equiv> TextRequest m cur (if action_description a \<noteq> [] then Some (action_description a) else None)"
  shows "calls (snd (run_step ai env acts m i s cur False st)) = calls st @ [(rq, ai (calls st) rq)]"
    and "fst (run_step ai env acts m i s cur False st)
           = (case outcome (ai (calls st) rq) of
                Inl e \<Rightarrow> Inl (Error (js ''Failed to generate content: '' @ exn_message e))
              | Inr None \<Rightarrow> Inl (TypeError (js ''Cannot read properties of undefined (reading '' @ [39] @ js ''trim'' @ [39] @ js '')''))
              | Inr (Some t) \<Rightarrow> Inr (trim t, startsWith (trim t) (js ''data:image/'')))"
proof -
  let ?g = "generateTextContent ai env m cur (action_description a) (log (start_entry i a s cur) st)"
  have c: "calls (snd ?g) = calls st @ [(rq, ai (calls st) rq)]"
    using generateTextContent_sends(1) [OF key, of ai m cur "action_description a"]
    by (simp add: rq_def)
  have f: "fst ?g = (case outcome (ai (calls st) rq) of
                Inr tx \<Rightarrow> Inr tx
              | Inl e \<Rightarrow> Inl (Error (js ''Failed to generate content: '' @ exn_message e)))"
    using generateTextContent_sends(3) [OF key, of ai m cur "action_description a"]
    by (simp add: rq_def)
  obtain r st2 where g: "?g = (r, st2)" by (cases ?g)
  show "calls (snd (run_step ai env acts m i s cur False st)) = calls st @ [(rq, ai (calls st) rq)]"
    using c g
    by (simp add: run_step_generic [OF fnd nv ns] complete_step_eq split: sum.splits)
  show "fst (run_step ai env acts m i s cur False st)
           = (case outcome (ai (calls st) rq) of
                Inl e \<Rightarrow> Inl (Error (js ''Failed to generate content: '' @ exn_message e))
              | Inr None \<Rightarrow> Inl (TypeError (js ''Cannot read properties of undefined (reading '' @ [39] @ js ''trim'' @ [39] @ js '')''))
              | Inr (Some t) \<Rightarrow> Inr (trim t, startsWith (trim t) (js ''data:image/'')))"
    using f g
    by (simp add: run_step_generic [OF fnd nv ns] complete_step_eq trim_text_def
             split: sum.splits option.splits)
qed

lemma run_step_calls_extend:
  "\<exists>C. calls (snd (run_step ai env acts m i s cur img st)) = calls st @ C"
proof (cases "run_step ai env acts m i s cur img st")
  case (Pair r st')
  show ?thesis
  proof (cases r)
    case (Inl e)
    with Pair run_step_Inl(1) [of ai env acts m i s cur img st e st'] show ?thesis by auto
  next
    case (Inr cb)
    obtain c b where "cb = (c, b)" by (cases cb)
    with Pair Inr run_step_Inr [of ai env acts m i s cur img st c b st'] show ?thesis by auto
  qed
qed

lemma run_steps_calls_extend:
  "\<exists>C. calls (snd (run_steps ai env acts m i steps cur img st)) = calls st @ C"
proof (induction steps arbitrary: i cur img st)
  case Nil
  then show ?case by simp
next
  case (Cons s rest)
  obtain r st1 where p: "run_step ai env acts m i s cur img st = (r, st1)"
    by (cases "run_step ai env acts m i s cur img st")
  from run_step_calls_extend [of ai env acts m i s cur img st] p
  obtain C1 where c1: "calls st1 = calls st @ C1" by auto
  show ?case
  proof (cases r)
    case (Inl e)
    with p c1 show ?thesis by simp
  next
    case (Inr cb)
    obtain c b where cb: "cb = (c, b)" by (cases cb)
    from Cons.IH [of "i + 1" c b st1] obtain C2 where
      "calls (snd (run_steps ai env acts m (i + 1) rest c b st1)) = calls st1 @ C2" by blast
    with p Inr cb c1 show ?thesis by simp
  qed
qed

lemma find_summarize:
  "find (\<lambda>a. action_id a = actionId (step_of (js ''summarize''))) WORKSPACES_availableActions
     = Some Summariser"
  by (simp add: WORKSPACES_availableActions_def step_of_def Summariser_def)

lemma Summariser_generic:
  "action_id Summariser \<noteq> js ''vision-integration''"
  "action_id Summariser \<noteq> js ''social-commenter''"
  by (simp_all add: Summariser_def js_def)

lemma scripted_outcome:
  "at_index script (length history) = Some r \<Longrightarrow> outcome (scripted script history rq) = r"
  by (simp add: scripted_def)

text \<open>A summarize step against the scripted service.\<close>

lemma summarize_step_scripted:
  assumes n: "length (calls st) = n" and r: "at_index script n = Some r"
  shows "\<exists>st'. run_step (scripted script) sample_env WORKSPACES_availableActions m i
                 (step_of (js ''summarize'')) cur False st
               = (case r of
                    Inl e \<Rightarrow> Inl (Error (js ''Failed to generate content: '' @ exn_message e))
                  | Inr None \<Rightarrow> Inl (TypeError (js ''Cannot read properties of undefined (reading '' @ [39] @ js ''trim'' @ [39] @ js '')''))
                  | Inr (Some t) \<Rightarrow> Inr (trim t, startsWith (trim t) (js ''data:image/'')),
                  st')
             \<and> length (calls st') = Suc n
             \<and> fst (last (calls st'))
                 = TextRequest m cur (Some (js ''Summarise any text or webpage (3-5 key ideas).''))"
proof -
  let ?run = "run_step (scripted script) sample_env WORKSPACES_availableActions m i
                 (step_of (js ''summarize'')) cur False st"
  have d: "action_description Summariser = js ''Summarise any text or webpage (3-5 key ideas).''"
    "action_description Summariser \<noteq> []"
    by (simp_all add: Summariser_def js_def)
  note g = generic_step [OF sample_env_key find_summarize Summariser_generic,
                         of "scripted script" m i cur st]
  have 1: "length (calls (snd ?run)) = Suc n"
    using g(1) n by simp
  have 2: "fst (last (calls (snd ?run)))
                 = TextRequest m cur (Some (js ''Summarise any text or webpage (3-5 key ideas).''))"
    using g(1) d by simp
  have 3: "fst ?run = (case r of
                    Inl e \<Rightarrow> Inl (Error (js ''Failed to generate content: '' @ exn_message e))
                  | Inr None \<Rightarrow> Inl (TypeError (js ''Cannot read properties of undefined (reading '' @ [39] @ js ''trim'' @ [39] @ js '')''))
                  | Inr (Some t) \<Rightarrow> Inr (trim t, startsWith (trim t) (js ''data:image/'')))"
    using g(2) scripted_outcome [of script "calls st" r] n r by simp
  show ?thesis
  proof (intro exI [of _ "snd ?run"] conjI)
    show "?run = (case r of
                    Inl e \<Rightarrow> Inl (Error (js ''Failed to generate content: '' @ exn_message e))
                  | Inr None \<Rightarrow> Inl (TypeError (js ''Cannot read properties of undefined (reading '' @ [39] @ js ''trim'' @ [39] @ js '')''))
                  | Inr (Some t) \<Rightarrow> Inr (trim t, startsWith (trim t) (js ''data:image/'')),
                  snd ?run)"
      by (rule prod_eqI) (simp_all only: fst_conv snd_conv 3)
  qed (rule 1, rule 2)
qed

lemma isLoading_update_fields [simp]:
  "calls (st\<lparr>isLoading := b\<rparr>) = calls st"
  "error (st\<lparr>isLoading := b\<rparr>) = error st"
  "automationOutput (st\<lparr>isLoading := b\<rparr>) = automationOutput st"
  "logs (st\<lparr>isLoading := b\<rparr>) = logs st"
  by simp_all

lemma trim_ok: "trim (js ''ok'') = js ''ok''"
  by (simp add: trim_def js_def isWhiteSpace_def)

lemma ok_not_image: "\<not> startsWith (js ''ok'') (js ''data:image/'')"
  by (simp add: startsWith_def js_def)

lemma timeout_no_key_phrase:
  "\<not> includes_js (js ''Failed to generate content: timeout'') (js ''API Key is not configured'')"
  by (simp add: js_def startsWith_def)

lemma idle_calls [simp]: "calls idle = []"
  by (simp add: idle_def)

text \<open>
  Three summarize steps; the model fails with \<open>timeout\<close> on the first call in one run, and
  on the second call in the other.
\<close>

lemma timeout_at_step_1:
  "\<exists>st'. run_steps (scripted [Inl (Error (js ''timeout''))]) sample_env
            WORKSPACES_availableActions DEFAULT_AI_MODEL 0
            [step_of (js ''summarize''), step_of (js ''summarize''), step_of (js ''summarize'')]
            (js ''a'') False
            (loop_entry (js ''demo'')
               [step_of (js ''summarize''), step_of (js ''summarize''), step_of (js ''summarize'')]
               (js ''a'') idle)
          = (Inl (Error (js ''Failed to generate content: timeout'')), st')
        \<and> length (calls st') = 1"
proof -
  let ?three = "[step_of (js ''summarize''), step_of (js ''summarize''), step_of (js ''summarize'')]"
  let ?L0 = "loop_entry (js ''demo'') ?three (js ''a'') idle"
  have "at_index [Inl (Error (js ''timeout''))] 0 = Some (Inl (Error (js ''timeout'')) :: exn + jsstring option)"
    by (simp add: at_index_def)
  from summarize_step_scripted [OF _ this, of ?L0 DEFAULT_AI_MODEL 0 "js ''a''"]
  obtain st' where
    "run_step (scripted [Inl (Error (js ''timeout''))]) sample_env WORKSPACES_availableActions
       DEFAULT_AI_MODEL 0 (step_of (js ''summarize'')) (js ''a'') False ?L0
     = (Inl (Error (js ''Failed to generate content: timeout'')), st')"
    and "length (calls st') = 1"
    by (auto simp add: js_append)
  then show ?thesis by simp
qed

lemma timeout_at_step_2:
  "\<exists>st1 st2.
      run_steps (scripted [Inr (Some (js ''ok'')), Inl (Error (js ''timeout''))]) sample_env
            WORKSPACES_availableActions DEFAULT_AI_MODEL 0 [step_of (js ''summarize'')]
            (js ''a'') False
            (loop_entry (js ''demo'')
               ([step_of (js ''summarize'')] @ step_of (js ''summarize'') # [step_of (js ''summarize'')])
               (js ''a'') idle)
          = (Inr (js ''ok'', False), st1)
    \<and> run_step (scripted [Inr (Some (js ''ok'')), Inl (Error (js ''timeout''))]) sample_env
            WORKSPACES_availableActions DEFAULT_AI_MODEL (length [step_of (js ''summarize'')])
            (step_of (js ''summarize'')) (js ''ok'') False st1
          = (Inl (Error (js ''Failed to generate content: timeout'')), st2)
    \<and> run_steps (scripted [Inr (Some (js ''ok'')), Inl (Error (js ''timeout''))]) sample_env
            WORKSPACES_availableActions DEFAULT_AI_MODEL 0
            [step_of (js ''summarize''), step_of (js ''summarize''), step_of (js ''summarize'')]
            (js ''a'') False
            (loop_entry (js ''demo'')
               [step_of (js ''summarize''), step_of (js ''summarize''), step_of (js ''summarize'')]
               (js ''a'') idle)
          = (Inl (Error (js ''Failed to generate content: timeout'')), st2)
    \<and> length (calls st2) = 2"
proof -
  let ?script = "[Inr (Some (js ''ok'')), Inl (Error (js ''timeout''))] :: (exn + jsstring option) list"
  let ?L0 = "loop_entry (js ''demo'')
               ([step_of (js ''summarize'')] @ step_of (js ''summarize'') # [step_of (js ''summarize'')])
               (js ''a'') idle"
  have 0: "at_index ?script 0 = Some (Inr (Some (js ''ok'')))"
    and 1: "at_index ?script 1 = Some (Inl (Error (js ''timeout'')))"
    by (simp_all add: at_index_def)
  from summarize_step_scripted [OF _ 0, of ?L0 DEFAULT_AI_MODEL 0 "js ''a''"]
  obtain st1 where
    s1: "run_step (scripted ?script) sample_env WORKSPACES_availableActions
       DEFAULT_AI_MODEL 0 (step_of (js ''summarize'')) (js ''a'') False ?L0
     = (Inr (js ''ok'', False), st1)"
    and c1: "length (calls st1) = 1"
    by (auto simp add: trim_ok ok_not_image)
  from summarize_step_scripted [OF c1 1, of DEFAULT_AI_MODEL 1 "js ''ok''"]
  obtain st2 where
    s2: "run_step (scripted ?script) sample_env WORKSPACES_availableActions
       DEFAULT_AI_MODEL 1 (step_of (js ''summarize'')) (js ''ok'') False st1
     = (Inl (Error (js ''Failed to generate content: timeout'')), st2)"
    and c2: "length (calls st2) = 2"
    by (auto simp add: js_append)
  from s1 s2 c2 show ?thesis by simp
qed

text \<open>A run succeeds, that is, ends with no error set, exactly when its loop runs to its end.\<close>

lemma success_iff:
  assumes key: "truthy (env_API_KEY env)"
  shows "error (runAutomation ai env acts m automationName steps input st) = None
         \<longleftrightarrow> (\<exists>out b st'. run_steps ai env acts m 0 steps input False
                              (loop_entry automationName steps input st) = (Inr (out, b), st'))"
proof (cases "run_steps ai env acts m 0 steps input False (loop_entry automationName steps input st)")
  case (Pair r st')
  show ?thesis
  proof (cases r)
    case (Inl e)
    with Pair show ?thesis
      by (simp add: runAutomation_eq [OF key] error_catch_block)
  next
    case (Inr ob)
    obtain out b where ob: "ob = (out, b)" by (cases ob)
    from run_steps_Inr [of ai env acts m 0 steps input False _ out b st'] Pair Inr ob
    have "same_ui (loop_entry automationName steps input st) st'" by simp
    then have "error st' = None" by (simp add: same_ui_def)
    with Pair Inr ob show ?thesis
      by (simp add: runAutomation_eq [OF key])
  qed
qed

lemma entries_at_append [simp]: "entries_at lvl (xs @ ys) = entries_at lvl xs @ entries_at lvl ys"
  by (simp add: entries_at_def)

lemma entries_at_none:
  "list_all (\<lambda>e. level e \<noteq> lvl) L \<Longrightarrow> entries_at lvl L = []"
  by (induction L) (simp_all add: entries_at_def)

lemma successful_run_entries:
  assumes key: "truthy (env_API_KEY env)"
      and ok: "error (runAutomation ai env acts m automationName steps input st) = None"
  shows "\<exists>L. logs (runAutomation ai env acts m automationName steps input st) = logs st @ L
            \<and> map message (entries_at INFO L)
                = [js ''Starting automation: '' @ name_or_untitled automationName]
                  @ step_messages acts 0 steps
                  @ [js ''Automation '' @ [34] @ name_or_untitled automationName @ [34]
                     @ js '' finished successfully.'']
            \<and> entries_at AUTOMATION_STEP L = []"
proof -
  let ?L0 = "loop_entry automationName steps input st"
  let ?start = "\<lparr>level = INFO,
                  message = js ''Starting automation: '' @ name_or_untitled automationName,
                  details = [(''initialInput'', DString input), (''steps'', DSteps steps)]\<rparr>"
  from ok obtain out b st' where
    loop: "run_steps ai env acts m 0 steps input False ?L0 = (Inr (out, b), st')"
    using success_iff [OF key] by blast
  let ?finish = "\<lparr>level = INFO,
                   message = js ''Automation '' @ [34] @ name_or_untitled automationName @ [34]
                             @ js '' finished successfully.'',
                   details = [(''finalOutput'', DString out)]\<rparr>"
  from run_steps_Inr [OF loop] obtain L1 where
    l1: "logs st' = logs ?L0 @ L1"
    and m1: "map message (filter (\<lambda>e. level e = INFO) L1) = step_messages acts 0 steps"
    and n1: "list_all (\<lambda>e. level e \<noteq> AUTOMATION_STEP) L1"
    by blast
  have l0: "logs ?L0 = logs st @ [?start]"
    by (simp add: loop_entry_def)
  have final: "logs (runAutomation ai env acts m automationName steps input st)
                 = logs st @ ([?start] @ L1 @ [?finish])"
    by (simp add: runAutomation_eq [OF key] loop l1 l0)
  have "map message (entries_at INFO ([?start] @ L1 @ [?finish]))
          = [js ''Starting automation: '' @ name_or_untitled automationName]
            @ step_messages acts 0 steps
            @ [js ''Automation '' @ [34] @ name_or_untitled automationName @ [34]
               @ js '' finished successfully.'']"
    using m1 by (simp add: entries_at_def)
  moreover have "entries_at AUTOMATION_STEP ([?start] @ L1 @ [?finish]) = []"
    using entries_at_none [OF n1] by (simp add: entries_at_def)
  ultimately show ?thesis using final by blast
qed

lemma show_nat_2 [simp]: "show_nat 2 = js ''2''"
  by (simp add: show_nat.simps js_def)

lemma show_nat_Suc_Suc_0 [simp]: "show_nat (Suc (Suc 0)) = js ''2''"
  using show_nat_2 by (simp add: numeral_2_eq_2)

lemma idle_fields [simp]: "logs idle = []" "error idle = None"
  by (simp_all add: idle_def)

text \<open>Two summarize steps that both succeed.\<close>

lemma two_summaries_succeed:
  "error (runAutomation (scripted [Inr (Some (js ''ok'')), Inr (Some (js ''ok''))])
            sample_env WORKSPACES_availableActions DEFAULT_AI_MODEL (js ''demo'')
            [step_of (js ''summarize''), step_of (js ''summarize'')] (js ''a'') idle) = None"
proof -
  let ?script = "[Inr (Some (js ''ok'')), Inr (Some (js ''ok''))] :: (exn + jsstring option) list"
  let ?two = "[step_of (js ''summarize''), step_of (js ''summarize'')]"
  let ?L0 = "loop_entry (js ''demo'') ?two (js ''a'') idle"
  have 0: "at_index ?script 0 = Some (Inr (Some (js ''ok'')))"
    and 1: "at_index ?script 1 = Some (Inr (Some (js ''ok'')))"
    by (simp_all add: at_index_def)
  from summarize_step_scripted [OF _ 0, of ?L0 DEFAULT_AI_MODEL 0 "js ''a''"]
  obtain st1 where
    s1: "run_step (scripted ?script) sample_env WORKSPACES_availableActions
       DEFAULT_AI_MODEL 0 (step_of (js ''summarize'')) (js ''a'') False ?L0
     = (Inr (js ''ok'', False), st1)"
    and c1: "length (calls st1) = 1"
    by (auto simp add: trim_ok ok_not_image)
  from summarize_step_scripted [OF c1 1, of DEFAULT_AI_MODEL 1 "js ''ok''"]
  obtain st2 where
    s2: "run_step (scripted ?script) sample_env WORKSPACES_availableActions
       DEFAULT_AI_MODEL 1 (step_of (js ''summarize'')) (js ''ok'') False st1
     = (Inr (js ''ok'', False), st2)"
    by (auto simp add: trim_ok ok_not_image)
  have "run_steps (scripted ?script) sample_env WORKSPACES_availableActions DEFAULT_AI_MODEL 0
          ?two (js ''a'') False ?L0 = (Inr (js ''ok'', False), st2)"
    using s1 s2 by simp
  then show ?thesis
    using success_iff [OF sample_env_key] by blast
qed

lemma generateTextContent_Inl_calls:
  assumes "generateTextContent ai env m p si st = (Inl e, st')"
  defines "rq \<equiv> TextRequest m p (if si \<noteq> [] then Some si else None)"
  shows "calls st' = calls st
       \<or> calls st' = calls st @ [(rq, ai (calls st) rq)] \<and> (\<exists>e'. outcome (ai (calls st) rq) = Inl e')"
  using assms
  by (auto simp add: generateTextContent_def Let_def log_def split: sum.splits if_splits)

lemma generateImages_Inl_calls:
  assumes "generateImages ai env p part st = (Inl e, st')"
  defines "rq \<equiv> ImageRequest (js ''gemini-2.5-flash-image'') (fst part) (snd part) p"
  shows "calls st' = calls st
       \<or> calls st' = calls st @ [(rq, ai (calls st) rq)] \<and> (\<exists>e'. outcome (ai (calls st) rq) = Inl e')"
  using assms
  by (auto simp add: generateImages_def Let_def split: sum.splits if_splits)

lemma trim_text_Inl: "trim_text tx = Inl e \<Longrightarrow> tx = None"
  by (cases tx) (simp_all add: trim_text_def)

text \<open>
  A step that fails has sent nothing, or has sent the request of its action for the
  current payload and got no text back.
\<close>

lemma run_step_Inl_calls:
  assumes run: "run_step ai env acts m i s cur img st = (Inl e, st')"
  shows "calls st' = calls st
       \<or> (\<exists>a. find (\<lambda>a. action_id a = actionId s) acts = Some a
              \<and> calls st' = calls st @ [(step_request m a s cur, ai (calls st) (step_request m a s cur))]
              \<and> (\<forall>t. outcome (ai (calls st) (step_request m a s cur)) \<noteq> Inr (Some t)))"
proof (cases "find (\<lambda>a. action_id a = actionId s) acts")
  case None
  with run show ?thesis by (auto simp add: run_step_unknown)
next
  case (Some a)
  let ?st1 = "log (start_entry i a s cur) st"
  let ?rq = "step_request m a s cur"
  consider (vision) "action_id a = js ''vision-integration''"
    | (social) "action_id a \<noteq> js ''vision-integration''" "action_id a = js ''social-commenter''"
    | (generic) "action_id a \<noteq> js ''vision-integration''" "action_id a \<noteq> js ''social-commenter''"
    by blast
  then have "calls st' = calls st
       \<or> calls st' = calls st @ [(?rq, ai (calls st) ?rq)]
         \<and> (\<forall>t. outcome (ai (calls st) ?rq) \<noteq> Inr (Some t))"
  proof cases
    case vision
    let ?part = "(case split 0x3B cur of [] \<Rightarrow> None | part # _ \<Rightarrow> at_index (split 0x3A part) 1,
                  at_index (split 0x2C cur) 1)"
    let ?g = "generateImages ai env (js ''Describe this image in detail.'') ?part ?st1"
    have rq: "?rq = ImageRequest (js ''gemini-2.5-flash-image'') (fst ?part) (snd ?part)
                      (js ''Describe this image in detail.'')"
      using vision by (simp add: step_request_def)
    show ?thesis
    proof (cases "startsWith cur (js ''data:image/'')")
      case False
      with run show ?thesis
        by (auto simp add: run_step_vision [OF Some vision] Let_def)
    next
      case True
      obtain r st2 where g: "?g = (r, st2)" by (cases ?g)
      show ?thesis
      proof (cases r)
        case (Inl e1)
        with run g True have "st' = st2"
          by (simp add: run_step_vision [OF Some vision] Let_def)
        moreover from g Inl have "?g = (Inl e1, st2)" by simp
        from generateImages_Inl_calls [OF this]
        have "calls st2 = calls st
            \<or> calls st2 = calls st @ [(?rq, ai (calls st) ?rq)]
              \<and> (\<exists>e'. outcome (ai (calls st) ?rq) = Inl e')"
          by (simp add: rq)
        ultimately show ?thesis by auto
      next
        case (Inr res)
        from g Inr have "?g = (Inr res, st2)" by simp
        from generateImages_Inr [OF this] obtain tx where
          res: "res = Response tx"
          and c: "calls st2 = calls st @ [(?rq, ai (calls st) ?rq)]"
          and o: "outcome (ai (calls st) ?rq) = Inr tx"
          by (auto simp add: rq)
        from run g True Inr res have "tx = None \<and> st' = st2"
          by (auto simp add: run_step_vision [OF Some vision] Let_def complete_step_eq
                   split: sum.splits dest: trim_text_Inl)
        with c o show ?thesis by simp
      qed
    qed
  next
    case social
    let ?g = "generateTextContent ai env m (social_prompt (emojiMode_of (options s)) cur)
                (action_description a) ?st1"
    have rq: "?rq = TextRequest m (social_prompt (emojiMode_of (options s)) cur)
                 (if action_description a \<noteq> [] then Some (action_description a) else None)"
      using social by (simp add: step_request_def)
    obtain r st2 where g: "?g = (r, st2)" by (cases ?g)
    show ?thesis
    proof (cases r)
      case (Inl e1)
      with run g have "st' = st2"
        by (simp add: run_step_social [OF Some social])
      moreover from g Inl have "?g = (Inl e1, st2)" by simp
      from generateTextContent_Inl_calls [OF this]
      have "calls st2 = calls st
          \<or> calls st2 = calls st @ [(?rq, ai (calls st) ?rq)]
            \<and> (\<exists>e'. outcome (ai (calls st) ?rq) = Inl e')"
        by (simp add: rq)
      ultimately show ?thesis by auto
    next
      case (Inr tx)
      from g Inr have "?g = (Inr tx, st2)" by simp
      from generateTextContent_Inr(2,3) [OF this] have
        c: "calls st2 = calls st @ [(?rq, ai (calls st) ?rq)]"
        and o: "outcome (ai (calls st) ?rq) = Inr tx"
        by (simp_all add: rq)
      from run g Inr have "tx = None \<and> st' = st2"
        by (auto simp add: run_step_social [OF Some social] complete_step_eq
                 split: sum.splits dest: trim_text_Inl)
      with c o show ?thesis by simp
    qed
  next
    case generic
    let ?g = "generateTextContent ai env m cur (action_description a) ?st1"
    have rq: "?rq = TextRequest m cur
                 (if action_description a \<noteq> [] then Some (action_description a) else None)"
      using generic by (simp add: step_request_def)
    show ?thesis
    proof (cases img)
      case True
      with run show ?thesis
        by (auto simp add: run_step_generic [OF Some generic])
    next
      case False
      obtain r st2 where g: "?g = (r, st2)" by (cases ?g)
      show ?thesis
      proof (cases r)
        case (Inl e1)
        with run g False have "st' = st2"
          by (simp add: run_step_generic [OF Some generic])
        moreover from g Inl have "?g = (Inl e1, st2)" by simp
        from generateTextContent_Inl_calls [OF this]
        have "calls st2 = calls st
            \<or> calls st2 = calls st @ [(?rq, ai (calls st) ?rq)]
              \<and> (\<exists>e'. outcome (ai (calls st) ?rq) = Inl e')"
          by (simp add: rq)
        ultimately show ?thesis by auto
      next
        case (Inr tx)
        from g Inr have "?g = (Inr tx, st2)" by simp
        from generateTextContent_Inr(2,3) [OF this] have
          c: "calls st2 = calls st @ [(?rq, ai (calls st) ?rq)]"
          and o: "outcome (ai (calls st) ?rq) = Inr tx"
          by (simp_all add: rq)
        from run g Inr False have "tx = None \<and> st' = st2"
          by (auto simp add: run_step_generic [OF Some generic] complete_step_eq
                   split: sum.splits dest: trim_text_Inl)
        with c o show ?thesis by simp
      qed
    qed
  qed
  with Some show ?thesis by simp
qed

text \<open>The requests a loop sends are threaded, whether it runs to its end or fails.\<close>

lemma run_steps_threaded:
  "\<exists>sent. calls (snd (run_steps ai env acts m i steps cur img st)) = calls st @ sent
         \<and> threaded ai m acts steps cur (calls st) sent"
proof (induction steps arbitrary: i cur img st)
  case Nil
  then show ?case by simp
next
  case (Cons s rest)
  obtain r st1 where p: "run_step ai env acts m i s cur img st = (r, st1)"
    by (cases "run_step ai env acts m i s cur img st")
  show ?case
  proof (cases r)
    case (Inl e)
    from run_step_Inl_calls [of ai env acts m i s cur img st e st1] p Inl
    consider (none) "calls st1 = calls st"
      | (one) a where "find (\<lambda>a. action_id a = actionId s) acts = Some a"
          "calls st1 = calls st @ [(step_request m a s cur, ai (calls st) (step_request m a s cur))]"
          "\<forall>t. outcome (ai (calls st) (step_request m a s cur)) \<noteq> Inr (Some t)"
      by blast
    then show ?thesis
    proof cases
      case none
      with p Inl show ?thesis by simp
    next
      case one
      have "threaded ai m acts (s # rest) cur (calls st)
              [(step_request m a s cur, ai (calls st) (step_request m a s cur))]"
        using one(1,3) by (simp split: sum.splits option.splits)
      with p Inl one(2) show ?thesis by simp
    qed
  next
    case (Inr ob)
    obtain out b where ob: "ob = (out, b)" by (cases ob)
    from run_step_Inr [of ai env acts m i s cur img st out b st1] p Inr ob obtain a t where
      fnd: "find (\<lambda>a. action_id a = actionId s) acts = Some a"
      and c1: "calls st1 = calls st @ [(step_request m a s cur, ai (calls st) (step_request m a s cur))]"
      and o1: "outcome (ai (calls st) (step_request m a s cur)) = Inr (Some t)"
      and out: "out = trim t"
      by auto
    from Cons.IH [of "i + 1" out b st1] obtain sent where
      c2: "calls (snd (run_steps ai env acts m (i + 1) rest out b st1)) = calls st1 @ sent"
      and th: "threaded ai m acts rest out (calls st1) sent"
      by blast
    have "threaded ai m acts (s # rest) cur (calls st)
            ((step_request m a s cur, ai (calls st) (step_request m a s cur)) # sent)"
      using fnd o1 th out c1 by simp
    moreover have "calls (snd (run_steps ai env acts m i (s # rest) cur img st))
                     = calls st @ (step_request m a s cur, ai (calls st) (step_request m a s cur)) # sent"
      using p Inr ob c1 c2 by simp
    ultimately show ?thesis by blast
  qed
qed

lemma threaded_Nil [simp]: "threaded ai m acts steps payload history []"
  by (cases steps) simp_all




lemma js_nonempty [simp]: "s \<noteq> [] \<Longrightarrow> js s \<noteq> []"
  by (simp add: js_def)

lemma trim_image_url:
  "trim (js ''data:image/png;base64,AAAA'') = js ''data:image/png;base64,AAAA''"
  by (simp add: trim_def js_def isWhiteSpace_def)

lemma image_url_is_image:
  "startsWith (js ''data:image/png;base64,AAAA'') (js ''data:image/'')"
  by (simp add: startsWith_def js_def)

text \<open>A summarize step whose reply is an image data URL.\<close>

lemma summarize_returns_image:
  "\<exists>st1. run_steps (scripted [Inr (Some (js ''data:image/png;base64,AAAA''))]) sample_env
            WORKSPACES_availableActions DEFAULT_AI_MODEL 0 [step_of (js ''summarize'')]
            (js ''a'') False
            (loop_entry (js ''demo'') ([step_of (js ''summarize'')] @ step_of (js ''summarize'') # [])
               (js ''a'') idle)
          = (Inr (js ''data:image/png;base64,AAAA'', True), st1)
        \<and> length (calls st1) = 1"
proof -
  let ?script = "[Inr (Some (js ''data:image/png;base64,AAAA''))] :: (exn + jsstring option) list"
  let ?L0 = "loop_entry (js ''demo'') ([step_of (js ''summarize'')] @ step_of (js ''summarize'') # [])
               (js ''a'') idle"
  have 0: "at_index ?script 0 = Some (Inr (Some (js ''data:image/png;base64,AAAA'')))"
    by (simp add: at_index_def)
  from summarize_step_scripted [OF _ 0, of ?L0 DEFAULT_AI_MODEL 0 "js ''a''"]
  obtain st1 where
    "run_step (scripted ?script) sample_env WORKSPACES_availableActions
       DEFAULT_AI_MODEL 0 (step_of (js ''summarize'')) (js ''a'') False ?L0
     = (Inr (js ''data:image/png;base64,AAAA'', True), st1)"
    and "length (calls st1) = 1"
    by (auto simp add: trim_image_url image_url_is_image)
  then show ?thesis by simp
qed

lemma mismatch_no_key_phrase:
  "\<not> includes_js (js ''Text-based action '' @ [39] @ js ''Summariser'' @ [39]
                     @ js '' cannot process image input from previous step.'')
                    (js ''API Key is not configured'')"
  by (simp add: js_def startsWith_def)

text \<open>
  A text action reached with the image flag clear, or the social commenter reached with
  any flag: with a key, the step sends the request of its action for the current payload.
\<close>

lemma text_step_sends:
  assumes key: "truthy (env_API_KEY env)"
      and fnd: "find (\<lambda>a. action_id a = actionId s) acts = Some a"
      and nv: "action_id a \<noteq> js ''vision-integration''"
      and ok: "action_id a = js ''social-commenter'' \<or> \<not> img"
  shows "calls (snd (run_step ai env acts m i s cur img st))
           = calls st @ [(step_request m a s cur, ai (calls st) (step_request m a s cur))]"
proof (cases "action_id a = js ''social-commenter''")
  case True
  let ?g = "generateTextContent ai env m (social_prompt (emojiMode_of (options s)) cur)
              (action_description a) (log (start_entry i a s cur) st)"
  have rq: "step_request m a s cur
              = TextRequest m (social_prompt (emojiMode_of (options s)) cur)
                  (if action_description a \<noteq> [] then Some (action_description a) else None)"
    using True nv by (simp add: step_request_def)
  have c: "calls (snd ?g) = calls st @ [(step_request m a s cur, ai (calls st) (step_request m a s cur))]"
    using generateTextContent_sends(1) [OF key, of ai m _ "action_description a"]
    by (simp add: rq)
  obtain r st2 where g: "?g = (r, st2)" by (cases ?g)
  show ?thesis
    using c g
    by (simp add: run_step_social [OF fnd nv True] complete_step_eq split: sum.splits)
next
  case False
  with ok have img: "\<not> img" by simp
  have rq: "step_request m a s cur
              = TextRequest m cur
                  (if action_description a \<noteq> [] then Some (action_description a) else None)"
    using False nv by (simp add: step_request_def)
  from generic_step(1) [OF key fnd nv False, of ai m i cur st] img rq
  show ?thesis by simp
qed

lemma trim_replicate: "\<not> isWhiteSpace c \<Longrightarrow> trim (replicate n c) = replicate n c"
  by (cases n) (simp_all add: trim_def replicate_append_same)

lemma letter_x_not_space: "\<not> isWhiteSpace 0x78"
  by (simp add: isWhiteSpace_def)

lemma replicate_x_not_image: "\<not> startsWith (replicate 150 0x78) (js ''data:image/'')"
proof -
  have "replicate 150 (0x78 :: 16 word) = 0x78 # replicate 149 0x78"
    using replicate_Suc [of 149 "0x78 :: 16 word"] by simp
  then show ?thesis
    by (simp add: startsWith_def js_def)
qed

text \<open>A summarize step whose reply is 150 letters \<open>x\<close>.\<close>

lemma summarize_long_reply:
  "\<exists>st'. run_step (scripted [Inr (Some (replicate 150 0x78))]) sample_env
            WORKSPACES_availableActions DEFAULT_AI_MODEL 0 (step_of (js ''summarize''))
            (js ''a'') False idle
          = (Inr (replicate 150 0x78, False), st')"
proof -
  have 0: "at_index [Inr (Some (replicate 150 0x78))] 0
             = Some (Inr (Some (replicate 150 0x78)) :: exn + jsstring option)"
    by (simp add: at_index_def)
  from summarize_step_scripted [OF _ 0, of idle DEFAULT_AI_MODEL 0 "js ''a''"]
  show ?thesis
    by (auto simp add: trim_replicate [OF letter_x_not_space] replicate_x_not_image)
qed

text \<open>Without an API key the run stops before its loop.\<close>

lemma no_key_run:
  assumes "\<not> truthy (env_API_KEY env)"
  shows "error (runAutomation ai env acts m automationName steps input st) = Some api_key_message"
    and "calls (runAutomation ai env acts m automationName steps input st) = calls st"
    and "automationOutput (runAutomation ai env acts m automationName steps input st) = []"
    and "\<not> isLoading (runAutomation ai env acts m automationName steps input st)"
  using assms by (simp_all add: runAutomation_def Let_def)

lemma success_has_key:
  "error (runAutomation ai env acts m automationName steps input st) = None
     \<Longrightarrow> truthy (env_API_KEY env)"
  using no_key_run(1) [of env ai acts m automationName steps input st] by auto







subsection \<open>The claims about the executor\<close>

text \<open>
  C5. The preview in the step-completion entry is the output itself when it has at most
  100 code units, and its first 100 code units followed by \<open>...\<close> when it is longer;
  and the last entry logged by a step that succeeds is this completion entry for the
  step's output.
\<close>

theorem completion_preview:
  "snd (complete_step i stepOutput st)
     = log \<lparr>level = INFO,
             message = js ''Step '' @ show_nat (i + 1) @ js '' completed.'',
             details = [(''output'',
                         DString (if length stepOutput > 100
                                  then take 100 stepOutput @ js ''...''
                                  else stepOutput))]\<rparr> st
   \<and> (run_step ai env acts m k s cur img st0 = (Inr (out, b), st')
      \<longrightarrow> last (logs st')
            = \<lparr>level = INFO,
               message = js ''Step '' @ show_nat (k + 1) @ js '' completed.'',
               details = [(''output'',
                           DString (if length out > 100 then take 100 out @ js ''...''
                                    else out))]\<rparr>)"
proof (intro conjI impI)
  show "snd (complete_step i stepOutput st)
     = log \<lparr>level = INFO,
             message = js ''Step '' @ show_nat (i + 1) @ js '' completed.'',
             details = [(''output'',
                         DString (if length stepOutput > 100
                                  then take 100 stepOutput @ js ''...''
                                  else stepOutput))]\<rparr> st"
    by (simp add: complete_step_def preview_def Let_def)
next
  assume "run_step ai env acts m k s cur img st0 = (Inr (out, b), st')"
  from run_step_Inr [OF this] obtain a mid where
    "logs st' = logs st0 @ [start_entry k a s cur] @ mid @ [completion_entry k out]"
    by blast
  then show "last (logs st')
            = \<lparr>level = INFO,
               message = js ''Step '' @ show_nat (k + 1) @ js '' completed.'',
               details = [(''output'',
                           DString (if length out > 100 then take 100 out @ js ''...''
                                    else out))]\<rparr>"
    by (simp add: completion_entry_def preview_def)
qed

text \<open>A summarize step whose output has 150 characters: the preview has the first 100.\<close>

theorem completion_preview_witness:
  "details (last (logs (snd (run_step (scripted [Inr (Some (replicate 150 0x78))]) sample_env
            WORKSPACES_availableActions DEFAULT_AI_MODEL 0 (step_of (js ''summarize''))
            (js ''a'') False idle))))
     = [(''output'', DString (replicate 100 0x78 @ js ''...''))]"
proof -
  from summarize_long_reply obtain st' where
    r: "run_step (scripted [Inr (Some (replicate 150 0x78))]) sample_env
            WORKSPACES_availableActions DEFAULT_AI_MODEL 0 (step_of (js ''summarize''))
            (js ''a'') False idle
          = (Inr (replicate 150 0x78, False), st')"
    by blast
  from completion_preview [THEN conjunct2, rule_format, OF r]
  have "details (last (logs st')) = [(''output'', DString (replicate 100 0x78 @ js ''...''))]"
    by simp
  with r show ?thesis by simp
qed

text \<open>
  C6. With at least one step and a blank initial input, \<open>handleRunAutomation\<close> only sets
  the missing-input error; with a non-blank input and no step, it only sets the
  empty-pipeline error. In both cases the run is never started: the state is otherwise
  unchanged, so no request is sent to the model.
\<close>

theorem validation_before_run:
  "(steps \<noteq> [] \<and> blank input \<longrightarrow>
      handleRunAutomation ai env acts m automationName steps input st
        = st\<lparr>error := Some (js ''Please provide initial input for the automation.'')\<rparr>
      \<and> calls (handleRunAutomation ai env acts m automationName steps input st) = calls st)
   \<and> (\<not> blank input \<longrightarrow>
      handleRunAutomation ai env acts m automationName [] input st
        = st\<lparr>error := Some (js ''Please add at least one step to the automation.'')\<rparr>
      \<and> calls (handleRunAutomation ai env acts m automationName [] input st) = calls st)"
  by (simp add: handleRunAutomation_def trim_empty_iff)

theorem validation_before_run_witness:
  "[step_of (js ''summarize'')] \<noteq> [] \<and> blank [0x20, 0x0A] \<and> \<not> blank (js ''x'')
   \<and> handleRunAutomation (scripted []) sample_env WORKSPACES_availableActions DEFAULT_AI_MODEL
        (js ''demo'') [step_of (js ''summarize'')] [0x20, 0x0A] idle
      = idle\<lparr>error := Some (js ''Please provide initial input for the automation.'')\<rparr>
   \<and> handleRunAutomation (scripted []) sample_env WORKSPACES_availableActions DEFAULT_AI_MODEL
        (js ''demo'') [] (js ''x'') idle
      = idle\<lparr>error := Some (js ''Please add at least one step to the automation.'')\<rparr>"
proof -
  have b: "blank [0x20, 0x0A]" by (simp add: blank_def isWhiteSpace_def)
  have nb: "\<not> blank (js ''x'')" by (simp add: blank_def isWhiteSpace_def js_def)
  have ne: "[step_of (js ''summarize'')] \<noteq> []" by simp
  note v = validation_before_run [of _ "[0x20, 0x0A]" "scripted []" sample_env
             WORKSPACES_availableActions DEFAULT_AI_MODEL "js ''demo''" idle]
  from v [of "[step_of (js ''summarize'')]"] b ne
  have 1: "handleRunAutomation (scripted []) sample_env WORKSPACES_availableActions DEFAULT_AI_MODEL
        (js ''demo'') [step_of (js ''summarize'')] [0x20, 0x0A] idle
      = idle\<lparr>error := Some (js ''Please provide initial input for the automation.'')\<rparr>"
    by blast
  from validation_before_run [of _ "js ''x''" "scripted []" sample_env
             WORKSPACES_availableActions DEFAULT_AI_MODEL "js ''demo''" idle] nb
  have 2: "handleRunAutomation (scripted []) sample_env WORKSPACES_availableActions DEFAULT_AI_MODEL
        (js ''demo'') [] (js ''x'') idle
      = idle\<lparr>error := Some (js ''Please add at least one step to the automation.'')\<rparr>"
    by blast
  from b nb ne 1 2 show ?thesis by blast
qed

text \<open>
  C7, amended. A pipeline whose first step names an action that is not in the catalogue
  fails, whatever the initial input, without any request to the model and with no output.
  With the API key configured, the error it logs is \<open>Invalid action ID: <id> at step 1\<close>,
  naming the action id and the step by its number counted from 1. The error shown is that
  message after \<open>Failed to run automation: \<close>, with one exception: when the message
  contains \<open>API Key is not configured\<close>, which it does when the id contains it, the
  \<open>catch\<close> block shows the API key message instead.
\<close>

theorem unknown_action_first_step:
  assumes "find (\<lambda>a. action_id a = actionId s) acts = None"
  shows "calls (runAutomation ai env acts m automationName (s # rest) input st) = calls st
       \<and> automationOutput (runAutomation ai env acts m automationName (s # rest) input st) = []
       \<and> \<not> isLoading (runAutomation ai env acts m automationName (s # rest) input st)
       \<and> error (runAutomation ai env acts m automationName (s # rest) input st) \<noteq> None
       \<and> (truthy (env_API_KEY env) \<longrightarrow>
            last (logs (runAutomation ai env acts m automationName (s # rest) input st))
              = \<lparr>level = ERROR,
                 message = js ''Automation '' @ [34] @ name_or_untitled automationName @ [34]
                           @ js '' failed.'',
                 details = [(''error'',
                             DString (js ''Invalid action ID: '' @ actionId s @ js '' at step 1''))]\<rparr>
          \<and> error (runAutomation ai env acts m automationName (s # rest) input st)
              = Some (if includes_js (js ''Invalid action ID: '' @ actionId s @ js '' at step 1'')
                                     (js ''API Key is not configured'')
                      then api_key_message
                      else js ''Failed to run automation: ''
                           @ js ''Invalid action ID: '' @ actionId s @ js '' at step 1''))"
proof (cases "truthy (env_API_KEY env)")
  case True
  from unknown_first_step [OF True assms, of ai m automationName rest input st] True
  show ?thesis by simp
next
  case False
  from no_key_run [OF False, of ai acts m automationName "s # rest" input st] False
  show ?thesis by simp
qed

theorem unknown_action_first_step_witness:
  "find (\<lambda>a. action_id a = actionId (step_of (js ''unknown-action'')))
          WORKSPACES_availableActions = None
   \<and> truthy (env_API_KEY sample_env)
   \<and> calls (runAutomation (scripted []) sample_env WORKSPACES_availableActions DEFAULT_AI_MODEL
               (js ''demo'') [step_of (js ''unknown-action'')] (js ''x'') idle) = []
   \<and> details (last (logs (runAutomation (scripted []) sample_env WORKSPACES_availableActions
               DEFAULT_AI_MODEL (js ''demo'') [step_of (js ''unknown-action'')] (js ''x'') idle)))
       = [(''error'', DString (js ''Invalid action ID: unknown-action at step 1''))]"
proof -
  have a: "actionId (step_of (js ''unknown-action'')) = js ''unknown-action''"
    by (simp add: step_of_def)
  note u = unknown_action_first_step [OF find_unknown_action,
          of "scripted []" sample_env DEFAULT_AI_MODEL "js ''demo''" "[]" "js ''x''" idle]
  have 1: "calls (runAutomation (scripted []) sample_env WORKSPACES_availableActions DEFAULT_AI_MODEL
               (js ''demo'') [step_of (js ''unknown-action'')] (js ''x'') idle) = []"
    using u by simp
  have "last (logs (runAutomation (scripted []) sample_env WORKSPACES_availableActions
               DEFAULT_AI_MODEL (js ''demo'') [step_of (js ''unknown-action'')] (js ''x'') idle))
       = \<lparr>level = ERROR,
                 message = js ''Automation '' @ [34] @ name_or_untitled (js ''demo'') @ [34]
                           @ js '' failed.'',
                 details = [(''error'',
                             DString (js ''Invalid action ID: '' @ actionId (step_of (js ''unknown-action''))
                                      @ js '' at step 1''))]\<rparr>"
    using u sample_env_key by blast
  then have 2: "details (last (logs (runAutomation (scripted []) sample_env WORKSPACES_availableActions
               DEFAULT_AI_MODEL (js ''demo'') [step_of (js ''unknown-action'')] (js ''x'') idle)))
       = [(''error'', DString (js ''Invalid action ID: unknown-action at step 1''))]"
    by (simp add: a js_append)
  from 1 2 find_unknown_action sample_env_key show ?thesis by simp
qed

text \<open>
  C7, as stated, fails: for the pipeline \<open>["unknown-action"]\<close> the error names step 1;
  the index 0 does not occur in it.
\<close>

theorem unknown_action_index_counterexample:
  "error (runAutomation (scripted []) sample_env WORKSPACES_availableActions DEFAULT_AI_MODEL
            (js ''demo'') [step_of (js ''unknown-action'')] (js ''x'') idle)
     = Some (js ''Failed to run automation: Invalid action ID: unknown-action at step 1'')
   \<and> 0x30 \<notin> set (js ''Failed to run automation: Invalid action ID: unknown-action at step 1'')"
proof -
  have a: "actionId (step_of (js ''unknown-action'')) = js ''unknown-action''"
    by (simp add: step_of_def)
  have "error (runAutomation (scripted []) sample_env WORKSPACES_availableActions DEFAULT_AI_MODEL
            (js ''demo'') [step_of (js ''unknown-action'')] (js ''x'') idle)
     = Some (js ''Failed to run automation: Invalid action ID: unknown-action at step 1'')"
    using unknown_first_step [OF sample_env_key find_unknown_action,
            of "scripted []" DEFAULT_AI_MODEL "js ''demo''" "[]" "js ''x''" idle]
          unknown_message_no_key_phrase
    by (simp add: a js_append)
  moreover have "0x30 \<notin> set (js ''Failed to run automation: Invalid action ID: unknown-action at step 1'')"
    by (simp add: js_def)
  ultimately show ?thesis by simp
qed

text \<open>
  C2, amended. With the API key configured, let the steps before step k run to their
  end and let step k fail with the thrown value \<open>e\<close>. Then the run ends in the \<open>catch\<close>
  block with \<open>e\<close>, in the state in which step k failed: the requests sent to the model
  are those sent up to that failure, at most k of them, so no later step sends any; the
  error state is set from the message of \<open>e\<close> and no output is set. The message of
  \<open>e\<close> names the step number k when the failure is an action id that does not resolve;
  nothing is said about a step number for the other failures.
\<close>

theorem fail_fast:
  assumes key: "truthy (env_API_KEY env)"
      and pre: "run_steps ai env acts m 0 pre input False
                  (loop_entry automationName (pre @ s # post) input st) = (Inr (cur, img), st1)"
      and fail: "run_step ai env acts m (length pre) s cur img st1 = (Inl e, st2)"
  shows "runAutomation ai env acts m automationName (pre @ s # post) input st
           = (catch_block automationName e st2)\<lparr>isLoading := False\<rparr>
       \<and> calls (runAutomation ai env acts m automationName (pre @ s # post) input st) = calls st2
       \<and> length (calls st2) \<le> length (calls st) + length pre + 1
       \<and> error (runAutomation ai env acts m automationName (pre @ s # post) input st)
           = Some (if includes_js (exn_message e) (js ''API Key is not configured'')
                   then api_key_message
                   else js ''Failed to run automation: '' @ exn_message e)
       \<and> automationOutput (runAutomation ai env acts m automationName (pre @ s # post) input st) = []
       \<and> (find (\<lambda>a. action_id a = actionId s) acts = None \<longrightarrow>
            exn_message e = js ''Invalid action ID: '' @ actionId s @ js '' at step ''
                            @ show_nat (length pre + 1))"
proof -
  let ?L0 = "loop_entry automationName (pre @ s # post) input st"
  have loop: "run_steps ai env acts m 0 (pre @ s # post) input False ?L0 = (Inl e, st2)"
    by (simp add: run_steps_append pre fail)
  have final: "runAutomation ai env acts m automationName (pre @ s # post) input st
                 = (catch_block automationName e st2)\<lparr>isLoading := False\<rparr>"
    by (simp add: runAutomation_eq [OF key] loop)
  from run_steps_Inr [OF pre] have c1: "length (calls st1) = length (calls st) + length pre"
    and u1: "same_ui ?L0 st1" by simp_all
  from run_step_Inl [OF fail] have c2: "length (calls st2) \<le> length (calls st1) + 1"
    and u2: "same_ui st1 st2" by auto
  have out: "automationOutput st2 = []"
    using same_ui_trans [OF u1 u2] by (simp add: same_ui_def)
  have unk: "find (\<lambda>a. action_id a = actionId s) acts = None \<longrightarrow>
            exn_message e = js ''Invalid action ID: '' @ actionId s @ js '' at step ''
                            @ show_nat (length pre + 1)"
    using fail by (auto simp add: run_step_unknown)
  show ?thesis
    unfolding final using c1 c2 out unk by (simp add: error_catch_block)
qed

text \<open>
  A run of three summarize steps whose second step fails.
\<close>

theorem fail_fast_witness:
  "truthy (env_API_KEY sample_env)
   \<and> calls (runAutomation (scripted [Inr (Some (js ''ok'')), Inl (Error (js ''timeout''))])
               sample_env WORKSPACES_availableActions DEFAULT_AI_MODEL (js ''demo'')
               ([step_of (js ''summarize'')] @ step_of (js ''summarize'') # [step_of (js ''summarize'')])
               (js ''a'') idle) \<noteq> []
   \<and> length (calls (runAutomation (scripted [Inr (Some (js ''ok'')), Inl (Error (js ''timeout''))])
               sample_env WORKSPACES_availableActions DEFAULT_AI_MODEL (js ''demo'')
               ([step_of (js ''summarize'')] @ step_of (js ''summarize'') # [step_of (js ''summarize'')])
               (js ''a'') idle)) \<le> 2
   \<and> automationOutput (runAutomation (scripted [Inr (Some (js ''ok'')), Inl (Error (js ''timeout''))])
               sample_env WORKSPACES_availableActions DEFAULT_AI_MODEL (js ''demo'')
               ([step_of (js ''summarize'')] @ step_of (js ''summarize'') # [step_of (js ''summarize'')])
               (js ''a'') idle) = []"
proof -
  from timeout_at_step_2 obtain st1 st2 where
    pre: "run_steps (scripted [Inr (Some (js ''ok'')), Inl (Error (js ''timeout''))]) sample_env
            WORKSPACES_availableActions DEFAULT_AI_MODEL 0 [step_of (js ''summarize'')]
            (js ''a'') False
            (loop_entry (js ''demo'')
               ([step_of (js ''summarize'')] @ step_of (js ''summarize'') # [step_of (js ''summarize'')])
               (js ''a'') idle)
          = (Inr (js ''ok'', False), st1)"
    and fail: "run_step (scripted [Inr (Some (js ''ok'')), Inl (Error (js ''timeout''))]) sample_env
            WORKSPACES_availableActions DEFAULT_AI_MODEL (length [step_of (js ''summarize'')])
            (step_of (js ''summarize'')) (js ''ok'') False st1
          = (Inl (Error (js ''Failed to generate content: timeout'')), st2)"
    and c2: "length (calls st2) = 2"
    by blast
  from fail_fast [OF sample_env_key pre fail] c2 sample_env_key
  show ?thesis by auto
qed

text \<open>
  C2, as stated, fails: in a pipeline of three summarize steps, a model failure at step 1
  and a model failure at step 2 end in the same error, which holds no number at all; the
  error does not identify the failing step.
\<close>

theorem error_identifies_step_counterexample:
  "error (runAutomation (scripted [Inl (Error (js ''timeout''))])
            sample_env WORKSPACES_availableActions DEFAULT_AI_MODEL (js ''demo'')
            [step_of (js ''summarize''), step_of (js ''summarize''), step_of (js ''summarize'')]
            (js ''a'') idle)
     = Some (js ''Failed to run automation: Failed to generate content: timeout'')
   \<and> length (calls (runAutomation (scripted [Inl (Error (js ''timeout''))])
            sample_env WORKSPACES_availableActions DEFAULT_AI_MODEL (js ''demo'')
            [step_of (js ''summarize''), step_of (js ''summarize''), step_of (js ''summarize'')]
            (js ''a'') idle)) = 1
   \<and> error (runAutomation (scripted [Inr (Some (js ''ok'')), Inl (Error (js ''timeout''))])
            sample_env WORKSPACES_availableActions DEFAULT_AI_MODEL (js ''demo'')
            [step_of (js ''summarize''), step_of (js ''summarize''), step_of (js ''summarize'')]
            (js ''a'') idle)
     = Some (js ''Failed to run automation: Failed to generate content: timeout'')
   \<and> length (calls (runAutomation (scripted [Inr (Some (js ''ok'')), Inl (Error (js ''timeout''))])
            sample_env WORKSPACES_availableActions DEFAULT_AI_MODEL (js ''demo'')
            [step_of (js ''summarize''), step_of (js ''summarize''), step_of (js ''summarize'')]
            (js ''a'') idle)) = 2
   \<and> \<not> has_digit (js ''Failed to run automation: Failed to generate content: timeout'')"
proof -
  let ?three = "[step_of (js ''summarize''), step_of (js ''summarize''), step_of (js ''summarize'')]"
  let ?A = "runAutomation (scripted [Inl (Error (js ''timeout''))])
            sample_env WORKSPACES_availableActions DEFAULT_AI_MODEL (js ''demo'') ?three (js ''a'') idle"
  let ?B = "runAutomation (scripted [Inr (Some (js ''ok'')), Inl (Error (js ''timeout''))])
            sample_env WORKSPACES_availableActions DEFAULT_AI_MODEL (js ''demo'') ?three (js ''a'') idle"
  from timeout_at_step_1 obtain sa where
    a: "run_steps (scripted [Inl (Error (js ''timeout''))]) sample_env
            WORKSPACES_availableActions DEFAULT_AI_MODEL 0 ?three (js ''a'') False
            (loop_entry (js ''demo'') ?three (js ''a'') idle)
          = (Inl (Error (js ''Failed to generate content: timeout'')), sa)"
    and ca: "length (calls sa) = 1"
    by blast
  have A: "?A = (catch_block (js ''demo'') (Error (js ''Failed to generate content: timeout'')) sa)
                  \<lparr>isLoading := False\<rparr>"
    by (simp only: runAutomation_eq [OF sample_env_key] a prod.case sum.case)
  from timeout_at_step_2 obtain sb where
    b: "run_steps (scripted [Inr (Some (js ''ok'')), Inl (Error (js ''timeout''))]) sample_env
            WORKSPACES_availableActions DEFAULT_AI_MODEL 0 ?three (js ''a'') False
            (loop_entry (js ''demo'') ?three (js ''a'') idle)
          = (Inl (Error (js ''Failed to generate content: timeout'')), sb)"
    and cb: "length (calls sb) = 2"
    by blast
  have B: "?B = (catch_block (js ''demo'') (Error (js ''Failed to generate content: timeout'')) sb)
                  \<lparr>isLoading := False\<rparr>"
    by (simp only: runAutomation_eq [OF sample_env_key] b prod.case sum.case)
  have d: "\<not> has_digit (js ''Failed to run automation: Failed to generate content: timeout'')"
    by (simp add: has_digit_def js_def)
  show ?thesis
    unfolding A B using ca cb d timeout_no_key_phrase
    by (simp add: error_catch_block js_append)
qed

text \<open>
  C3, amended. A run that succeeds, that is, ends with no error set, logs, at level \<open>info\<close>,
  exactly: the start-of-run entry; for each step in order an entry
  \<open>Executing step k: <action name>\<close> at step start and an entry \<open>Step k completed.\<close> at
  step completion; and the terminal success entry. It logs no entry at level
  \<open>automation_step\<close>. (The other entries of the run are those of the model service, at
  levels \<open>api_call\<close> and \<open>api_response\<close>.)
\<close>

theorem step_log_entries:
  assumes "error (runAutomation ai env acts m automationName steps input st) = None"
  shows "\<exists>L. logs (runAutomation ai env acts m automationName steps input st) = logs st @ L
            \<and> map message (entries_at INFO L)
                = [js ''Starting automation: '' @ name_or_untitled automationName]
                  @ step_messages acts 0 steps
                  @ [js ''Automation '' @ [34] @ name_or_untitled automationName @ [34]
                     @ js '' finished successfully.'']
            \<and> entries_at AUTOMATION_STEP L = []"
  using success_has_key [OF assms] assms by (rule successful_run_entries)

text \<open>
  A pipeline of two summarize steps that both succeed: two start entries, two completion
  entries and one terminal success entry, after the start-of-run entry.
\<close>

theorem step_log_entries_witness:
  "truthy (env_API_KEY sample_env)
   \<and> error (runAutomation (scripted [Inr (Some (js ''ok'')), Inr (Some (js ''ok''))])
            sample_env WORKSPACES_availableActions DEFAULT_AI_MODEL (js ''demo'')
            [step_of (js ''summarize''), step_of (js ''summarize'')] (js ''a'') idle) = None
   \<and> map message (entries_at INFO
        (logs (runAutomation (scripted [Inr (Some (js ''ok'')), Inr (Some (js ''ok''))])
            sample_env WORKSPACES_availableActions DEFAULT_AI_MODEL (js ''demo'')
            [step_of (js ''summarize''), step_of (js ''summarize'')] (js ''a'') idle)))
     = [js ''Starting automation: demo'',
        js ''Executing step 1: Summariser'', js ''Step 1 completed.'',
        js ''Executing step 2: Summariser'', js ''Step 2 completed.'',
        js ''Automation '' @ [34] @ js ''demo'' @ [34] @ js '' finished successfully.'']"
proof -
  have n: "name_or_untitled (js ''demo'') = js ''demo''"
    by (simp add: name_or_untitled_def js_def)
  have a: "action_name_of WORKSPACES_availableActions (step_of (js ''summarize'')) = js ''Summariser''"
    by (simp add: action_name_of_def find_summarize Summariser_def)
  from step_log_entries [OF two_summaries_succeed]
  have "map message (entries_at INFO
        (logs (runAutomation (scripted [Inr (Some (js ''ok'')), Inr (Some (js ''ok''))])
            sample_env WORKSPACES_availableActions DEFAULT_AI_MODEL (js ''demo'')
            [step_of (js ''summarize''), step_of (js ''summarize'')] (js ''a'') idle)))
     = [js ''Starting automation: '' @ name_or_untitled (js ''demo'')]
                  @ step_messages WORKSPACES_availableActions 0
                      [step_of (js ''summarize''), step_of (js ''summarize'')]
                  @ [js ''Automation '' @ [34] @ name_or_untitled (js ''demo'') @ [34]
                     @ js '' finished successfully.'']"
    by auto
  then show ?thesis
    using sample_env_key two_summaries_succeed
    by (simp add: n a js_append)
qed

text \<open>
  C3, as stated, fails: a pipeline of two steps that both succeed logs no entry of level
  \<open>automation_step\<close> at all.
\<close>

theorem automation_step_level_counterexample:
  "error (runAutomation (scripted [Inr (Some (js ''ok'')), Inr (Some (js ''ok''))])
            sample_env WORKSPACES_availableActions DEFAULT_AI_MODEL (js ''demo'')
            [step_of (js ''summarize''), step_of (js ''summarize'')] (js ''a'') idle) = None
   \<and> entries_at AUTOMATION_STEP
        (logs (runAutomation (scripted [Inr (Some (js ''ok'')), Inr (Some (js ''ok''))])
            sample_env WORKSPACES_availableActions DEFAULT_AI_MODEL (js ''demo'')
            [step_of (js ''summarize''), step_of (js ''summarize'')] (js ''a'') idle)) = []"
  using successful_run_entries [OF sample_env_key two_summaries_succeed] two_summaries_succeed
  by auto



text \<open>
  C8, amended. With the API key configured, let the steps before a step run to their end.
  If the step names a text action other than the social commenter and the image flag is
  set, the run fails, without a request for that step, with the error
  \<open>Text-based action '<action name>' cannot process image input from previous step.\<close>;
  if it names the vision action and the current payload does not start with
  \<open>data:image/\<close>, the run fails, without a request for that step, with the error
  \<open>Vision Integration requires an image input (base64 data URL). Current input is not an
  image.\<close>. Both messages say which kind was expected and which was found; neither has
  a step index in it. (Nothing is said here about the social commenter, which has no such
  check.)
\<close>

theorem kind_mismatch:
  assumes key: "truthy (env_API_KEY env)"
      and pre: "run_steps ai env acts m 0 pre input False
                  (loop_entry automationName (pre @ s # post) input st) = (Inr (cur, img), st1)"
      and fnd: "find (\<lambda>a. action_id a = actionId s) acts = Some a"
  shows "(action_id a \<noteq> js ''vision-integration'' \<and> action_id a \<noteq> js ''social-commenter'' \<and> img
          \<longrightarrow> runAutomation ai env acts m automationName (pre @ s # post) input st
                = (catch_block automationName
                     (Error (js ''Text-based action '' @ [39] @ action_name a @ [39]
                             @ js '' cannot process image input from previous step.''))
                     (log (start_entry (length pre) a s cur) st1))\<lparr>isLoading := False\<rparr>
              \<and> calls (runAutomation ai env acts m automationName (pre @ s # post) input st)
                  = calls st1
              \<and> details (last (logs (runAutomation ai env acts m automationName (pre @ s # post) input st)))
                  = [(''error'',
                      DString (js ''Text-based action '' @ [39] @ action_name a @ [39]
                               @ js '' cannot process image input from previous step.''))])
       \<and> (action_id a = js ''vision-integration'' \<and> \<not> startsWith cur (js ''data:image/'')
          \<longrightarrow> runAutomation ai env acts m automationName (pre @ s # post) input st
                = (catch_block automationName
                     (Error (js ''Vision Integration requires an image input (base64 data URL). Current input is not an image.''))
                     (log (start_entry (length pre) a s cur) st1))\<lparr>isLoading := False\<rparr>
              \<and> calls (runAutomation ai env acts m automationName (pre @ s # post) input st)
                  = calls st1
              \<and> details (last (logs (runAutomation ai env acts m automationName (pre @ s # post) input st)))
                  = [(''error'',
                      DString (js ''Vision Integration requires an image input (base64 data URL). Current input is not an image.''))])"
proof (intro conjI impI)
  let ?L0 = "loop_entry automationName (pre @ s # post) input st"
  let ?st = "log (start_entry (length pre) a s cur) st1"
  let ?run = "runAutomation ai env acts m automationName (pre @ s # post) input st"
  {
    assume g: "action_id a \<noteq> js ''vision-integration'' \<and> action_id a \<noteq> js ''social-commenter'' \<and> img"
    let ?e = "Error (js ''Text-based action '' @ [39] @ action_name a @ [39]
                     @ js '' cannot process image input from previous step.'')"
    have step: "run_step ai env acts m (length pre) s cur img st1 = (Inl ?e, ?st)"
      using g by (simp add: run_step_generic [OF fnd])
    have loop: "run_steps ai env acts m 0 (pre @ s # post) input False ?L0 = (Inl ?e, ?st)"
      by (simp add: run_steps_append pre step)
    have final: "?run = (catch_block automationName ?e ?st)\<lparr>isLoading := False\<rparr>"
      by (simp add: runAutomation_eq [OF key] loop)
    have m: "message_or_String ?e = js ''Text-based action '' @ [39] @ action_name a @ [39]
                     @ js '' cannot process image input from previous step.''"
      by (simp add: message_or_String_def)
    show "?run = (catch_block automationName ?e ?st)\<lparr>isLoading := False\<rparr>"
      by (rule final)
    show "calls ?run = calls st1"
      by (simp add: final)
    show "details (last (logs ?run))
            = [(''error'', DString (js ''Text-based action '' @ [39] @ action_name a @ [39]
                                    @ js '' cannot process image input from previous step.''))]"
      using m by (simp add: final logs_catch_block)
  }
  {
    assume v: "action_id a = js ''vision-integration'' \<and> \<not> startsWith cur (js ''data:image/'')"
    let ?e = "Error (js ''Vision Integration requires an image input (base64 data URL). Current input is not an image.'')"
    have step: "run_step ai env acts m (length pre) s cur img st1 = (Inl ?e, ?st)"
      using v by (simp add: run_step_vision [OF fnd] Let_def)
    have loop: "run_steps ai env acts m 0 (pre @ s # post) input False ?L0 = (Inl ?e, ?st)"
      by (simp add: run_steps_append pre step)
    have final: "?run = (catch_block automationName ?e ?st)\<lparr>isLoading := False\<rparr>"
      by (simp add: runAutomation_eq [OF key] loop)
    have m: "message_or_String ?e = js ''Vision Integration requires an image input (base64 data URL). Current input is not an image.''"
      by (simp add: message_or_String_def)
    show "?run = (catch_block automationName ?e ?st)\<lparr>isLoading := False\<rparr>"
      by (rule final)
    show "calls ?run = calls st1"
      by (simp add: final)
    show "details (last (logs ?run))
            = [(''error'', DString (js ''Vision Integration requires an image input (base64 data URL). Current input is not an image.''))]"
      using m by (simp add: final logs_catch_block)
  }
qed

text \<open>
  A summarize step whose reply is an image data URL, followed by another summarize step.
\<close>

theorem kind_mismatch_witness:
  "truthy (env_API_KEY sample_env)
   \<and> length (calls (runAutomation (scripted [Inr (Some (js ''data:image/png;base64,AAAA''))])
         sample_env WORKSPACES_availableActions DEFAULT_AI_MODEL (js ''demo'')
         ([step_of (js ''summarize'')] @ step_of (js ''summarize'') # []) (js ''a'') idle)) = 1
   \<and> details (last (logs (runAutomation (scripted [Inr (Some (js ''data:image/png;base64,AAAA''))])
         sample_env WORKSPACES_availableActions DEFAULT_AI_MODEL (js ''demo'')
         ([step_of (js ''summarize'')] @ step_of (js ''summarize'') # []) (js ''a'') idle)))
       = [(''error'', DString (js ''Text-based action '' @ [39] @ js ''Summariser'' @ [39]
                               @ js '' cannot process image input from previous step.''))]"
proof -
  from summarize_returns_image obtain st1 where
    pre: "run_steps (scripted [Inr (Some (js ''data:image/png;base64,AAAA''))]) sample_env
            WORKSPACES_availableActions DEFAULT_AI_MODEL 0 [step_of (js ''summarize'')]
            (js ''a'') False
            (loop_entry (js ''demo'') ([step_of (js ''summarize'')] @ step_of (js ''summarize'') # [])
               (js ''a'') idle)
          = (Inr (js ''data:image/png;base64,AAAA'', True), st1)"
    and c: "length (calls st1) = 1"
    by blast
  have n: "action_name Summariser = js ''Summariser''"
    by (simp add: Summariser_def)
  have cond: "action_id Summariser \<noteq> js ''vision-integration''
              \<and> action_id Summariser \<noteq> js ''social-commenter'' \<and> True"
    using Summariser_generic by simp
  note k = kind_mismatch [OF sample_env_key pre find_summarize, THEN conjunct1, rule_format, OF cond]
  have c2: "calls (runAutomation (scripted [Inr (Some (js ''data:image/png;base64,AAAA''))])
         sample_env WORKSPACES_availableActions DEFAULT_AI_MODEL (js ''demo'')
         ([step_of (js ''summarize'')] @ step_of (js ''summarize'') # []) (js ''a'') idle) = calls st1"
    by (rule conjunct1 [OF conjunct2 [OF k]])
  have c3: "details (last (logs (runAutomation (scripted [Inr (Some (js ''data:image/png;base64,AAAA''))])
         sample_env WORKSPACES_availableActions DEFAULT_AI_MODEL (js ''demo'')
         ([step_of (js ''summarize'')] @ step_of (js ''summarize'') # []) (js ''a'') idle)))
       = [(''error'', DString (js ''Text-based action '' @ [39] @ action_name Summariser @ [39]
                               @ js '' cannot process image input from previous step.''))]"
    by (rule conjunct2 [OF conjunct2 [OF k]])
  show ?thesis
    unfolding c2 c3 n c using sample_env_key by simp
qed

text \<open>
  C8, as stated, fails: the error of a kind mismatch at step 2 holds no step index (no
  digit at all).
\<close>

theorem mismatch_step_index_counterexample:
  "error (runAutomation (scripted [Inr (Some (js ''data:image/png;base64,AAAA''))])
         sample_env WORKSPACES_availableActions DEFAULT_AI_MODEL (js ''demo'')
         [step_of (js ''summarize''), step_of (js ''summarize'')] (js ''a'') idle)
     = Some (js ''Failed to run automation: '' @ js ''Text-based action '' @ [39]
             @ js ''Summariser'' @ [39] @ js '' cannot process image input from previous step.'')
   \<and> \<not> has_digit (js ''Failed to run automation: '' @ js ''Text-based action '' @ [39]
             @ js ''Summariser'' @ [39] @ js '' cannot process image input from previous step.'')"
proof -
  let ?script = "[Inr (Some (js ''data:image/png;base64,AAAA''))] :: (exn + jsstring option) list"
  let ?two = "[step_of (js ''summarize''), step_of (js ''summarize'')]"
  let ?L0 = "loop_entry (js ''demo'') ?two (js ''a'') idle"
  let ?e = "Error (js ''Text-based action '' @ [39] @ js ''Summariser'' @ [39]
                   @ js '' cannot process image input from previous step.'')"
  from summarize_returns_image obtain st1 where
    pre: "run_steps (scripted ?script) sample_env WORKSPACES_availableActions DEFAULT_AI_MODEL 0
            [step_of (js ''summarize'')] (js ''a'') False ?L0
          = (Inr (js ''data:image/png;base64,AAAA'', True), st1)"
    by auto
  have n: "action_name Summariser = js ''Summariser''"
    by (simp add: Summariser_def)
  have step: "run_step (scripted ?script) sample_env WORKSPACES_availableActions DEFAULT_AI_MODEL
                (0 + length [step_of (js ''summarize'')]) (step_of (js ''summarize''))
                (js ''data:image/png;base64,AAAA'') True st1
              = (Inl ?e, log (start_entry (0 + length [step_of (js ''summarize'')]) Summariser
                                (step_of (js ''summarize'')) (js ''data:image/png;base64,AAAA'')) st1)"
    using n by (simp add: run_step_generic [OF find_summarize Summariser_generic])
  have loop: "run_steps (scripted ?script) sample_env WORKSPACES_availableActions DEFAULT_AI_MODEL 0
                ([step_of (js ''summarize'')] @ [step_of (js ''summarize'')]) (js ''a'') False ?L0
              = (Inl ?e, log (start_entry (0 + length [step_of (js ''summarize'')]) Summariser
                                (step_of (js ''summarize'')) (js ''data:image/png;base64,AAAA'')) st1)"
  proof -
    have tail: "run_steps (scripted ?script) sample_env WORKSPACES_availableActions DEFAULT_AI_MODEL
                  (0 + length [step_of (js ''summarize'')]) [step_of (js ''summarize'')]
                  (js ''data:image/png;base64,AAAA'') True st1
                = (Inl ?e, log (start_entry (0 + length [step_of (js ''summarize'')]) Summariser
                                  (step_of (js ''summarize'')) (js ''data:image/png;base64,AAAA'')) st1)"
      by (simp only: run_steps.simps step prod.case sum.case)
    show ?thesis
      by (simp only: run_steps_append pre prod.case sum.case tail)
  qed
  then have loop': "run_steps (scripted ?script) sample_env WORKSPACES_availableActions
                DEFAULT_AI_MODEL 0 ?two (js ''a'') False ?L0
              = (Inl ?e, log (start_entry (0 + length [step_of (js ''summarize'')]) Summariser
                                (step_of (js ''summarize'')) (js ''data:image/png;base64,AAAA'')) st1)"
    by (simp only: append.simps)
  have "error (runAutomation (scripted ?script) sample_env WORKSPACES_availableActions
                 DEFAULT_AI_MODEL (js ''demo'') ?two (js ''a'') idle)
          = Some (js ''Failed to run automation: '' @ js ''Text-based action '' @ [39]
             @ js ''Summariser'' @ [39] @ js '' cannot process image input from previous step.'')"
    using mismatch_no_key_phrase
    by (simp only: runAutomation_eq [OF sample_env_key] loop' prod.case sum.case)
       (simp add: error_catch_block)
  moreover have "\<not> has_digit (js ''Failed to run automation: '' @ js ''Text-based action '' @ [39]
             @ js ''Summariser'' @ [39] @ js '' cannot process image input from previous step.'')"
    by (simp add: has_digit_def js_def)
  ultimately show ?thesis by simp
qed

text \<open>
  C10. The loop starts with the image flag clear whatever the initial input is. So, with
  the API key configured, a first step that names a text action (any action but the vision
  one) always sends its request for the initial input, even when that input starts with
  \<open>data:image/\<close>: no kind mismatch is raised on the initial input. And whenever the
  flag is set after some steps of the loop, at least one step has run and the current
  payload, the output of the last step, starts with \<open>data:image/\<close>.
\<close>

theorem initial_kind_is_text:
  "(truthy (env_API_KEY env)
      \<and> find (\<lambda>a. action_id a = actionId s) acts = Some a
      \<and> action_id a \<noteq> js ''vision-integration''
    \<longrightarrow> (\<exists>more. calls (runAutomation ai env acts m automationName (s # rest) input st)
                   = calls st @ (step_request m a s input, ai (calls st) (step_request m a s input))
                                # more))
   \<and> (run_steps ai env acts m 0 pre input False st0 = (Inr (cur, img), st1) \<and> img
    \<longrightarrow> pre \<noteq> [] \<and> startsWith cur (js ''data:image/''))"
proof (intro conjI impI)
  assume a: "truthy (env_API_KEY env)
      \<and> find (\<lambda>a. action_id a = actionId s) acts = Some a
      \<and> action_id a \<noteq> js ''vision-integration''"
  then have key: "truthy (env_API_KEY env)"
    and fnd: "find (\<lambda>a. action_id a = actionId s) acts = Some a"
    and nv: "action_id a \<noteq> js ''vision-integration''"
    by simp_all
  let ?L0 = "loop_entry automationName (s # rest) input st"
  let ?rq = "step_request m a s input"
  let ?r = "run_step ai env acts m 0 s input False ?L0"
  have c1: "calls (snd ?r) = calls st @ [(?rq, ai (calls st) ?rq)]"
    using text_step_sends [OF key fnd nv, of False ai m 0 input ?L0] by simp
  have "\<exists>more. calls (snd (run_steps ai env acts m 0 (s # rest) input False ?L0))
                 = calls (snd ?r) @ more"
  proof (cases ?r)
    case (Pair res st')
    show ?thesis
    proof (cases res)
      case (Inl e)
      with Pair show ?thesis by simp
    next
      case (Inr cb)
      obtain c b where "cb = (c, b)" by (cases cb)
      with Pair Inr run_steps_calls_extend [of ai env acts m "0 + 1" rest c b st']
      show ?thesis by simp
    qed
  qed
  then obtain more where
    c2: "calls (snd (run_steps ai env acts m 0 (s # rest) input False ?L0))
           = calls st @ (?rq, ai (calls st) ?rq) # more"
    using c1 by auto
  have "calls (runAutomation ai env acts m automationName (s # rest) input st)
          = calls (snd (run_steps ai env acts m 0 (s # rest) input False ?L0))"
    by (simp add: runAutomation_eq [OF key] split: prod.splits sum.splits)
  with c2 show "\<exists>more. calls (runAutomation ai env acts m automationName (s # rest) input st)
                   = calls st @ (?rq, ai (calls st) ?rq) # more"
    by auto
next
  assume "run_steps ai env acts m 0 pre input False st0 = (Inr (cur, img), st1) \<and> img"
  then have r: "run_steps ai env acts m 0 pre input False st0 = (Inr (cur, img), st1)" and i: img
    by simp_all
  from run_steps_Inr [OF r] i
  show "pre \<noteq> []" and "startsWith cur (js ''data:image/'')"
    by (auto split: if_splits)
qed

text \<open>
  A summarize step on an initial input that is an image data URL, and a summarize step
  whose reply is one.
\<close>

theorem initial_kind_is_text_witness:
  "truthy (env_API_KEY sample_env)
   \<and> find (\<lambda>a. action_id a = actionId (step_of (js ''summarize''))) WORKSPACES_availableActions
       = Some Summariser
   \<and> startsWith (js ''data:image/png;base64,AAAA'') (js ''data:image/'')
   \<and> fst (hd (calls (runAutomation (scripted [Inr (Some (js ''ok''))]) sample_env
                       WORKSPACES_availableActions DEFAULT_AI_MODEL (js ''demo'')
                       (step_of (js ''summarize'') # []) (js ''data:image/png;base64,AAAA'') idle)))
       = TextRequest DEFAULT_AI_MODEL (js ''data:image/png;base64,AAAA'')
           (Some (js ''Summarise any text or webpage (3-5 key ideas).''))
   \<and> [step_of (js ''summarize'')] \<noteq> []"
proof -
  have cond: "truthy (env_API_KEY sample_env)
      \<and> find (\<lambda>a. action_id a = actionId (step_of (js ''summarize''))) WORKSPACES_availableActions
          = Some Summariser
      \<and> action_id Summariser \<noteq> js ''vision-integration''"
    using sample_env_key find_summarize Summariser_generic by simp
  from initial_kind_is_text [THEN conjunct1, rule_format, OF cond,
         of "scripted [Inr (Some (js ''ok''))]" DEFAULT_AI_MODEL "js ''demo''" "[]"
            "js ''data:image/png;base64,AAAA''" idle]
  obtain more where
    "calls (runAutomation (scripted [Inr (Some (js ''ok''))]) sample_env
              WORKSPACES_availableActions DEFAULT_AI_MODEL (js ''demo'')
              (step_of (js ''summarize'') # []) (js ''data:image/png;base64,AAAA'') idle)
       = calls idle @ (step_request DEFAULT_AI_MODEL Summariser (step_of (js ''summarize''))
                         (js ''data:image/png;base64,AAAA''),
                       scripted [Inr (Some (js ''ok''))] (calls idle)
                         (step_request DEFAULT_AI_MODEL Summariser (step_of (js ''summarize''))
                            (js ''data:image/png;base64,AAAA''))) # more"
    by blast
  then have 1: "fst (hd (calls (runAutomation (scripted [Inr (Some (js ''ok''))]) sample_env
                       WORKSPACES_availableActions DEFAULT_AI_MODEL (js ''demo'')
                       (step_of (js ''summarize'') # []) (js ''data:image/png;base64,AAAA'') idle)))
       = step_request DEFAULT_AI_MODEL Summariser (step_of (js ''summarize''))
           (js ''data:image/png;base64,AAAA'')"
    by simp
  have 2: "step_request DEFAULT_AI_MODEL Summariser (step_of (js ''summarize''))
             (js ''data:image/png;base64,AAAA'')
           = TextRequest DEFAULT_AI_MODEL (js ''data:image/png;base64,AAAA'')
               (Some (js ''Summarise any text or webpage (3-5 key ideas).''))"
    using Summariser_generic by (simp add: step_request_def) (simp add: Summariser_def js_def)
  from summarize_returns_image obtain st1 where
    pre: "run_steps (scripted [Inr (Some (js ''data:image/png;base64,AAAA''))]) sample_env
            WORKSPACES_availableActions DEFAULT_AI_MODEL 0 [step_of (js ''summarize'')]
            (js ''a'') False
            (loop_entry (js ''demo'') ([step_of (js ''summarize'')] @ step_of (js ''summarize'') # [])
               (js ''a'') idle)
          = (Inr (js ''data:image/png;base64,AAAA'', True), st1)"
    by blast
  then have "run_steps (scripted [Inr (Some (js ''data:image/png;base64,AAAA''))]) sample_env
            WORKSPACES_availableActions DEFAULT_AI_MODEL 0 [step_of (js ''summarize'')]
            (js ''a'') False
            (loop_entry (js ''demo'') ([step_of (js ''summarize'')] @ step_of (js ''summarize'') # [])
               (js ''a'') idle)
          = (Inr (js ''data:image/png;base64,AAAA'', True), st1) \<and> True"
    by (rule conjI) simp
  from initial_kind_is_text [THEN conjunct2, rule_format, OF this]
  have 3: "[step_of (js ''summarize'')] \<noteq> []
           \<and> startsWith (js ''data:image/png;base64,AAAA'') (js ''data:image/'')" .
  from 1 2 3 cond show ?thesis by (simp only: simp_thms)
qed

end
